theory Spec2Isabelle
  imports Main "HOL-Library.AList"
begin

section \<open>Journal persistence and reconciliation (journal.js)\<close>

text \<open>
  A shallow embedding of the journal module: the in-memory collections
  \<open>userJournals\<close> and \<open>allJournals\<close>, the two localStorage keys the module
  reads and writes, and the handlers that route a write to the remote document
  store or to localStorage.

  The remote store, the clock, the random generator and the confirm dialog are
  outside the module. Every call the module makes to the remote store is
  appended to \<open>remoteCalls\<close>; what the store answers is an argument of the
  handler that makes the call, and a call that loses its race against the
  timer is answered by a timeout. A handler that suspends on a remote call
  without a timer is given as the part that issues the call and the part that
  runs on the answer. One run of a handler reads the clock once.

  A thrown exception is a value: \<open>JSON.parse\<close> returns a sum, and each
  \<open>try\<close> block of the source is the case distinction on it, so a handler
  of type \<open>state \<Rightarrow> state\<close> lets no exception escape. Writing to
  localStorage is taken to succeed.

  Strings are byte strings, so case folding and white space are the ASCII
  ones. Cards keep the fields the handlers decide (identifier, displayed
  text, tags, owner badge, edit and delete buttons); themes, dates, reading
  time, the modal, the loading spinner and the text-to-speech hooks are left
  out, and so is \<open>console.log\<close>.
\<close>

subsection \<open>Strings\<close>

definition startsWith :: "string \<Rightarrow> string \<Rightarrow> bool" where
  "startsWith s p = (take (length p) s = p)"

fun includesStr :: "string \<Rightarrow> string \<Rightarrow> bool" where
  "includesStr [] t = (t = [])"
| "includesStr (x # xs) t = (startsWith (x # xs) t \<or> includesStr xs t)"

definition upperAlphabet :: string where
  "upperAlphabet = ''ABCDEFGHIJKLMNOPQRSTUVWXYZ''"

definition lowerAlphabet :: string where
  "lowerAlphabet = ''abcdefghijklmnopqrstuvwxyz''"

definition lowerChar :: "char \<Rightarrow> char" where
  "lowerChar c = (case map_of (zip upperAlphabet lowerAlphabet) c of
                    Some l \<Rightarrow> l | None \<Rightarrow> c)"

definition upperChar :: "char \<Rightarrow> char" where
  "upperChar c = (case map_of (zip lowerAlphabet upperAlphabet) c of
                    Some u \<Rightarrow> u | None \<Rightarrow> c)"

definition toLowerCase :: "string \<Rightarrow> string" where
  "toLowerCase s = map lowerChar s"

definition toUpperCase :: "string \<Rightarrow> string" where
  "toUpperCase s = map upperChar s"

definition isSpace :: "char \<Rightarrow> bool" where
  "isSpace c = (c \<in> set [CHR '' '', CHR 0x09, CHR 0x0A, CHR 0x0B, CHR 0x0C, CHR 0x0D])"

definition trim :: "string \<Rightarrow> string" where
  "trim s = rev (dropWhile isSpace (rev (dropWhile isSpace s)))"

fun splitOn :: "char \<Rightarrow> string \<Rightarrow> string list" where
  "splitOn c [] = [[]]"
| "splitOn c (x # xs) =
     (if x = c then [] # splitOn c xs
      else (case splitOn c xs of
              p # ps \<Rightarrow> (x # p) # ps
            | [] \<Rightarrow> [[x]]))"

text \<open>The tag field of the form: split at commas, trim, drop the empty pieces.\<close>

definition parseTags :: "string \<Rightarrow> string list" where
  "parseTags tagsInput =
     (if tagsInput = [] then []
      else filter (\<lambda>tag. tag \<noteq> []) (map trim (splitOn CHR '','' tagsInput)))"

definition digitChar :: "nat \<Rightarrow> char" where
  "digitChar d = ''0123456789'' ! d"

fun decimal :: "nat \<Rightarrow> string" where
  "decimal n = (if n < 10 then [digitChar n] else decimal (n div 10) @ [digitChar (n mod 10)])"

declare decimal.simps [simp del]

definition showInt :: "int \<Rightarrow> string" where
  "showInt i = (if i < 0 then CHR ''-'' # decimal (nat (- i)) else decimal (nat i))"

subsection \<open>Arrays\<close>

text \<open>\<open>Array.prototype.findIndex\<close>: \<open>None\<close> stands for the result -1.\<close>

fun findIndex :: "('a \<Rightarrow> bool) \<Rightarrow> 'a list \<Rightarrow> nat option" where
  "findIndex P [] = None"
| "findIndex P (x # xs) = (if P x then Some 0 else map_option Suc (findIndex P xs))"

text \<open>\<open>xs.splice(i, 1)\<close>.\<close>

definition splice1 :: "nat \<Rightarrow> 'a list \<Rightarrow> 'a list" where
  "splice1 i xs = take i xs @ drop (Suc i) xs"

subsection \<open>Data model\<close>

record translation =
  tr_title :: string
  tr_content :: string
  tr_tags :: "string list"

text \<open>
  A journal object. \<open>translations\<close> is the object from language code to
  translation, in insertion order; an absent property and \<open>{}\<close> are both the
  empty list. Instants are milliseconds; \<open>updatedAt\<close> is absent on the
  samples. The field \<open>translations\<close> is named
  \<open>j_translations\<close> here.
\<close>

record journal =
  jid :: string
  userId :: string
  title :: string
  content :: string
  tags :: "string list"
  createdAt :: int
  updatedAt :: "int option"
  j_translations :: "(string \<times> translation) list"

text \<open>
  The text stored under the localStorage key \<open>localJournals\<close>: no entry, a
  text that \<open>JSON.parse\<close> rejects, or the serialisation of an array of
  journals (the only texts the module writes).
\<close>

datatype blob = Absent | Unparseable | Stored "journal list"

text \<open>The same for the key \<open>journalTranslations\<close>.\<close>

datatype tblob = TAbsent | TUnparseable
  | TStored "(string \<times> (string \<times> translation) list) list"

datatype remote_call =
    AddDoc string string string "string list"
  | UpdateJournal string string string "string list"
  | UpdateDocTranslations string "(string \<times> translation) list"
  | DeleteDoc string
  | GetDocsByUser string
  | GetDocsAll

datatype log_level = LogWarn | LogError

datatype message_type = MsgInfo | MsgSuccess | MsgError

record card =
  card_id :: string
  card_title :: string
  card_excerpt :: string
  card_long :: bool
  card_tags :: "string list"
  card_owner_badge :: bool
  card_actions :: bool

text \<open>
  What the journals container shows: its initial markup, one of the two
  notices, or a sequence of cards.
\<close>

datatype view = Initial | NoJournalsYet | NoJournalsFound | Cards "card list"

record state =
  currentUser :: "string option"
  userJournals :: "journal list"
  allJournals :: "journal list"
  localJournals :: blob
  journalTranslations :: tblob
  language :: "string option"
  journalsContainer :: "view option"
  moduleLoadTime :: int
  remoteCalls :: "remote_call list"
  console :: "(log_level \<times> string) list"
  messages :: "(message_type \<times> string) list"

text \<open>The answers of the environment.\<close>

datatype create_outcome = Created string | CreateFailed string | CreateTimeout

datatype update_outcome = UpdateOk | UpdateFailed string | UpdateTimeout

datatype delete_outcome = Deleted | DeleteFailed string | DeletePending

datatype query_outcome = Snapshot "journal list" | QueryFailed string

record form =
  f_journalId :: string
  f_title :: string
  f_content :: string
  f_tags :: string

record env =
  now :: int
  rnd :: string
  onCreate :: create_outcome
  onUpdate :: update_outcome

subsection \<open>Small effects\<close>

definition showMessage :: "string \<Rightarrow> message_type \<Rightarrow> state \<Rightarrow> state" where
  "showMessage m t s = s\<lparr>messages := messages s @ [(t, m)]\<rparr>"

definition consoleError :: "string \<Rightarrow> state \<Rightarrow> state" where
  "consoleError m s = s\<lparr>console := console s @ [(LogError, m)]\<rparr>"

definition consoleWarn :: "string \<Rightarrow> state \<Rightarrow> state" where
  "consoleWarn m s = s\<lparr>console := console s @ [(LogWarn, m)]\<rparr>"

definition remoteCall :: "remote_call \<Rightarrow> state \<Rightarrow> state" where
  "remoteCall c s = s\<lparr>remoteCalls := remoteCalls s @ [c]\<rparr>"

text \<open>\<open>window.accessibilityState?.currentLanguage || 'en'\<close>.\<close>

definition currentLang :: "state \<Rightarrow> string" where
  "currentLang s = (case language s of
                      None \<Rightarrow> ''en''
                    | Some l \<Rightarrow> if l = [] then ''en'' else l)"

text \<open>\<open>JSON.parse(localStorage.getItem('localJournals') || '[]')\<close>.\<close>

definition parseLocalJournals :: "blob \<Rightarrow> string + journal list" where
  "parseLocalJournals b = (case b of
       Absent \<Rightarrow> Inr []
     | Unparseable \<Rightarrow> Inl ''SyntaxError''
     | Stored js \<Rightarrow> Inr js)"

definition parseJournalTranslations ::
  "tblob \<Rightarrow> string + (string \<times> (string \<times> translation) list) list" where
  "parseJournalTranslations b = (case b of
       TAbsent \<Rightarrow> Inr []
     | TUnparseable \<Rightarrow> Inl ''SyntaxError''
     | TStored m \<Rightarrow> Inr m)"

subsection \<open>The static samples\<close>

text \<open>
  \<open>SAMPLE_JOURNALS\<close>, created when the module is loaded at instant \<open>t0\<close>. Each
  sample carries a table of nine translations; the entry \<open>en\<close> is kept, the
  other eight are texts outside ASCII and are left out.
\<close>

definition sample1_content :: string where
  "sample1_content = ''Mindfulness is the practice of being fully present and engaged in the current moment. It involves paying attention to our thoughts, feelings, and surroundings without judgment. By cultivating mindfulness, we can reduce stress, improve focus, and enhance our overall well-being. Start with just five minutes of meditation each day, focusing on your breath and letting go of distracting thoughts.''"

definition sample2_content :: string where
  "sample2_content = ''Change is an inevitable part of life, yet many of us resist it. Learning to embrace change can lead to personal growth and new opportunities. Instead of fearing the unknown, we can view change as a chance to learn, adapt, and discover new aspects of ourselves. Remember that every ending is also a beginning.''"

definition sample3_content :: string where
  "sample3_content = ''Practicing gratitude can transform our perspective on life. When we focus on what we have rather than what we lack, we cultivate happiness and contentment. Start a daily gratitude journal where you write down three things you'' @ [CHR 0x27] @ ''re thankful for each day. This simple practice can shift your mindset and improve your overall well-being.''"

definition sampleJournal ::
  "string \<Rightarrow> string \<Rightarrow> string \<Rightarrow> string list \<Rightarrow> int \<Rightarrow> string \<Rightarrow> journal" where
  "sampleJournal i t c ts created u =
     \<lparr>jid = i, userId = u, title = t, content = c, tags = ts,
      createdAt = created, updatedAt = None,
      j_translations = [(''en'', \<lparr>tr_title = t, tr_content = c, tr_tags = ts\<rparr>)]\<rparr>"

definition SAMPLE_JOURNALS :: "int \<Rightarrow> journal list" where
  "SAMPLE_JOURNALS t0 =
     [sampleJournal ''sample-1'' ''The Art of Mindful Living'' sample1_content
        [''mindfulness'', ''wellness'', ''mental health''] (t0 - 86400000) ''demo-user-1'',
      sampleJournal ''sample-2'' ''Embracing Change in Life'' sample2_content
        [''change'', ''growth'', ''life lessons''] (t0 - 172800000) ''demo-user-2'',
      sampleJournal ''sample-3'' ''The Power of Gratitude'' sample3_content
        [''gratitude'', ''happiness'', ''mindset''] (t0 - 259200000) ''demo-user-3'']"

definition samples :: "state \<Rightarrow> journal list" where
  "samples s = SAMPLE_JOURNALS (moduleLoadTime s)"

subsection \<open>Translation\<close>

text \<open>
  \<open>getTranslatedJournalData\<close>: both branches of the source return the same
  triple when the journal has an entry for the language; \<open>a || b\<close> on a
  string takes \<open>b\<close> when \<open>a\<close> is empty, and an array is never falsy.
\<close>

definition orElse :: "string \<Rightarrow> string \<Rightarrow> string" where
  "orElse a b = (if a = [] then b else a)"

definition getTranslatedJournalData :: "journal \<Rightarrow> string \<Rightarrow> translation" where
  "getTranslatedJournalData j lang =
     (case map_of (j_translations j) lang of
        Some t \<Rightarrow> \<lparr>tr_title = orElse (tr_title t) (title j),
                   tr_content = orElse (tr_content t) (content j),
                   tr_tags = tr_tags t\<rparr>
      | None \<Rightarrow> \<lparr>tr_title = title j, tr_content = content j, tr_tags = tags j\<rparr>)"

definition knownLanguages :: "string list" where
  "knownLanguages = [''en'', ''es'', ''fr'', ''de'', ''zh'', ''ja'', ''bn'', ''hi'', ''pt'']"

definition markers :: "(string \<times> string) list" where
  "markers = [(''en'', ''[EN] ''), (''es'', ''[ES] ''), (''fr'', ''[FR] ''),
              (''de'', ''[DE] ''), (''zh'', ''[ZH] ''), (''ja'', ''[JA] ''),
              (''bn'', ''[BN] ''), (''hi'', ''[HI] ''), (''pt'', ''[PT] '')]"

text \<open>
  The table \<open>placeholders\<close>: a row for each of the nine languages, holding the
  marker of every other language.
\<close>

definition placeholders :: "string \<Rightarrow> string \<Rightarrow> string option" where
  "placeholders fromLang toLang =
     (if fromLang \<in> set knownLanguages \<and> toLang \<noteq> fromLang
      then map_of markers toLang else None)"

definition translateText :: "string \<Rightarrow> string \<Rightarrow> string \<Rightarrow> string" where
  "translateText text fromLang toLang =
     (if text = [] \<or> fromLang = toLang then text
      else (case placeholders fromLang toLang of
              Some prefix \<Rightarrow> prefix
            | None \<Rightarrow> ''['' @ toUpperCase toLang @ ''] '') @ text)"

definition saveTranslationToLocalStorage ::
  "string \<Rightarrow> string \<Rightarrow> translation \<Rightarrow> state \<Rightarrow> state" where
  "saveTranslationToLocalStorage journalId lang t s =
     (case parseJournalTranslations (journalTranslations s) of
        Inl e \<Rightarrow> consoleError ''Failed to save translation to localStorage:'' s
      | Inr m \<Rightarrow>
          (let entry = (case map_of m journalId of None \<Rightarrow> [] | Some ts \<Rightarrow> ts)
           in s\<lparr>journalTranslations :=
                  TStored (AList.update journalId (AList.update lang t entry) m)\<rparr>))"

text \<open>
  \<open>translateJournal\<close>. The journal object is changed in place and returned;
  here the changed journal is the first component of the result. \<open>saved\<close> tells
  whether the awaited \<open>updateDoc\<close> resolved.
\<close>

definition translateJournal ::
  "bool \<Rightarrow> journal \<Rightarrow> string \<Rightarrow> state \<Rightarrow> journal \<times> state" where
  "translateJournal saved j targetLang s =
     (if currentLang s = targetLang \<or> startsWith (jid j) ''sample-'' then (j, s)
      else if map_of (j_translations j) targetLang \<noteq> None then (j, s)
      else
        (let t = \<lparr>tr_title = translateText (title j) (currentLang s) targetLang,
                  tr_content = translateText (content j) (currentLang s) targetLang,
                  tr_tags = map (\<lambda>tag. translateText tag (currentLang s) targetLang) (tags j)\<rparr>;
             j' = j\<lparr>j_translations := AList.update targetLang t (j_translations j)\<rparr>
         in if \<not> startsWith (jid j) ''local-'' \<and> \<not> startsWith (jid j) ''sample-''
            then (let s1 = remoteCall (UpdateDocTranslations (jid j) (j_translations j')) s
                  in if saved then (j', s1)
                     else (j', saveTranslationToLocalStorage (jid j) targetLang t
                                 (consoleWarn ''Failed to save translation to Firestore:'' s1)))
            else if startsWith (jid j) ''local-''
            then (j', saveTranslationToLocalStorage (jid j) targetLang t s)
            else (j', s)))"

subsection \<open>Rendering\<close>

text \<open>
  One card. \<open>journal.userId === currentUser?.uid\<close> decides the owner badge;
  the buttons are given by the caller.
\<close>

definition isOwner :: "state \<Rightarrow> journal \<Rightarrow> bool" where
  "isOwner s j = (currentUser s = Some (userId j))"

definition renderCard :: "state \<Rightarrow> (journal \<Rightarrow> bool) \<Rightarrow> journal \<Rightarrow> card" where
  "renderCard s actions j =
     (let d = getTranslatedJournalData j (currentLang s)
      in \<lparr>card_id = jid j,
          card_title = orElse (tr_title d) ''Untitled'',
          card_excerpt = take 150 (tr_content d),
          card_long = (150 < length (tr_content d)),
          card_tags = tags j,
          card_owner_badge = isOwner s j,
          card_actions = actions j\<rparr>)"

definition displayJournals :: "journal list \<Rightarrow> bool \<Rightarrow> state \<Rightarrow> state" where
  "displayJournals journals showEditDelete s =
     (case journalsContainer s of
        None \<Rightarrow> s
      | Some v \<Rightarrow>
          if journals = [] then s\<lparr>journalsContainer := Some NoJournalsYet\<rparr>
          else s\<lparr>journalsContainer :=
                   Some (Cards (map (renderCard s (\<lambda>j. showEditDelete)) journals))\<rparr>)"

definition displayFilteredCombinedJournals :: "journal list \<Rightarrow> state \<Rightarrow> state" where
  "displayFilteredCombinedJournals journals s =
     (case journalsContainer s of
        None \<Rightarrow> s
      | Some v \<Rightarrow>
          if journals = [] then s\<lparr>journalsContainer := Some NoJournalsFound\<rparr>
          else s\<lparr>journalsContainer :=
                   Some (Cards (map (renderCard s (isOwner s)) journals))\<rparr>)"

text \<open>
  \<open>displayCombinedJournals\<close>: the list shown to a signed-in user is
  \<open>[...allJournals, ...localJournals, ...SAMPLE_JOURNALS]\<close>, where the local
  variable \<open>localJournals\<close> is the parsed fallback store, or \<open>[]\<close> when the
  blob does not parse.
\<close>

definition storedJournals :: "state \<Rightarrow> journal list" where
  "storedJournals s = (case parseLocalJournals (localJournals s) of Inl e \<Rightarrow> [] | Inr js \<Rightarrow> js)"

definition combinedJournals :: "state \<Rightarrow> journal list" where
  "combinedJournals s = allJournals s @ storedJournals s @ samples s"

definition displayCombinedJournals :: "state \<Rightarrow> state" where
  "displayCombinedJournals s =
     (case journalsContainer s of
        None \<Rightarrow> s
      | Some v \<Rightarrow>
          (let s1 = (case parseLocalJournals (localJournals s) of
                       Inl e \<Rightarrow> consoleError ''Error parsing localStorage journals:'' s
                     | Inr js \<Rightarrow> s)
           in if combinedJournals s = [] then s1\<lparr>journalsContainer := Some NoJournalsYet\<rparr>
              else s1\<lparr>journalsContainer :=
                        Some (Cards (map (renderCard s (isOwner s)) (combinedJournals s)))\<rparr>))"

text \<open>The identifiers of the cards in the container, in order.\<close>

definition displayedIds :: "state \<Rightarrow> string list" where
  "displayedIds s = (case journalsContainer s of
                       Some (Cards cs) \<Rightarrow> map card_id cs
                     | _ \<Rightarrow> [])"

subsection \<open>The fallback store\<close>

definition saveJournalToLocalStorage :: "int \<Rightarrow> journal \<Rightarrow> state \<Rightarrow> state" where
  "saveJournalToLocalStorage t j s =
     (case parseLocalJournals (localJournals s) of
        Inl e \<Rightarrow> consoleError ''Failed to save journal to localStorage:'' s
      | Inr js \<Rightarrow>
          (case findIndex (\<lambda>x. jid x = jid j) js of
             Some i \<Rightarrow> s\<lparr>localJournals := Stored (js[i := j\<lparr>updatedAt := Some t\<rparr>])\<rparr>
           | None \<Rightarrow> s\<lparr>localJournals := Stored (js @ [j])\<rparr>))"

subsection \<open>Loading\<close>

text \<open>
  \<open>loadUserJournals\<close> and \<open>loadAllJournals\<close> suspend at \<open>await getDocs(q)\<close>.
  The part before the suspension records the query; the part after it takes
  the answer. \<open>currentUser\<close> is read again after the suspension, where a
  signed-out user makes \<open>currentUser.uid\<close> throw inside the inner \<open>try\<close> as
  soon as the filter callback runs.
\<close>

definition loadUserJournals_settle :: "query_outcome \<Rightarrow> state \<Rightarrow> state" where
  "loadUserJournals_settle q s =
     (case q of
        Snapshot docs \<Rightarrow> displayCombinedJournals (s\<lparr>userJournals := docs\<rparr>)
      | QueryFailed m \<Rightarrow>
          (let s1 = consoleError ''Error loading user journals from Firestore:'' s;
               failed = displayCombinedJournals
                          (showMessage ''Error loading your journals'' MsgError
                             (consoleError ''Error loading local journals:'' s1))
           in case parseLocalJournals (localJournals s1) of
                Inl e \<Rightarrow> failed
              | Inr js \<Rightarrow>
                  (case currentUser s1 of
                     Some uid \<Rightarrow>
                       displayCombinedJournals
                         (s1\<lparr>userJournals := filter (\<lambda>j. userId j = uid) js\<rparr>)
                   | None \<Rightarrow>
                       if js = [] then displayCombinedJournals (s1\<lparr>userJournals := []\<rparr>)
                       else failed)))"

definition loadUserJournals_issue :: "state \<Rightarrow> state" where
  "loadUserJournals_issue s =
     (case currentUser s of
        None \<Rightarrow> s
      | Some uid \<Rightarrow> remoteCall (GetDocsByUser uid) s)"

definition loadUserJournals :: "query_outcome \<Rightarrow> state \<Rightarrow> state" where
  "loadUserJournals q s =
     (case currentUser s of
        None \<Rightarrow> s
      | Some uid \<Rightarrow> loadUserJournals_settle q (loadUserJournals_issue s))"

definition loadAllJournals_settle :: "query_outcome \<Rightarrow> state \<Rightarrow> state" where
  "loadAllJournals_settle q s =
     (case q of
        Snapshot docs \<Rightarrow>
          (let s1 = s\<lparr>allJournals := docs\<rparr>
           in if currentUser s1 \<noteq> None then displayCombinedJournals s1
              else if docs = [] then displayJournals (samples s1) False s1
              else displayJournals docs False s1)
      | QueryFailed m \<Rightarrow>
          (let s1 = consoleError ''Error loading all journals:'' s
           in if currentUser s1 = None then displayJournals (samples s1) False s1 else s1))"

definition loadAllJournals :: "query_outcome \<Rightarrow> state \<Rightarrow> state" where
  "loadAllJournals q s = loadAllJournals_settle q (remoteCall GetDocsAll s)"

text \<open>
  The callback registered by \<open>setupAuthListener\<close>, up to its return: for a
  user both loads are started, for \<open>null\<close> the samples are shown.
\<close>

definition authStateChanged :: "string option \<Rightarrow> state \<Rightarrow> state" where
  "authStateChanged user s =
     (let s1 = s\<lparr>currentUser := user\<rparr>
      in case user of
           Some uid \<Rightarrow> remoteCall GetDocsAll (loadUserJournals_issue s1)
         | None \<Rightarrow> displayJournals (samples s1) False s1)"

subsection \<open>Create and update\<close>

definition newJournal ::
  "string \<Rightarrow> string \<Rightarrow> string \<Rightarrow> string \<Rightarrow> string list \<Rightarrow> int \<Rightarrow> journal" where
  "newJournal i uid t c ts at =
     \<lparr>jid = i, userId = uid, title = t, content = c, tags = ts,
      createdAt = at, updatedAt = Some at, j_translations = []\<rparr>"

text \<open>\<open>{...old, title, content, tags, updatedAt: new Date()}\<close>.\<close>

definition patchJournal :: "string \<Rightarrow> string \<Rightarrow> string list \<Rightarrow> int \<Rightarrow> journal \<Rightarrow> journal" where
  "patchJournal t c ts at j = j\<lparr>title := t, content := c, tags := ts, updatedAt := Some at\<rparr>"

text \<open>\<open>i = xs.findIndex(j => j.id === journalId); if (i >= 0) xs[i] = f(xs[i])\<close>.\<close>

definition updateAtId :: "string \<Rightarrow> (journal \<Rightarrow> journal) \<Rightarrow> journal list \<Rightarrow> journal list" where
  "updateAtId journalId f js =
     (case findIndex (\<lambda>j. jid j = journalId) js of
        Some i \<Rightarrow> js[i := f (js ! i)]
      | None \<Rightarrow> js)"

text \<open>\<open>i = xs.findIndex(j => j.id === journalId); if (i >= 0) xs.splice(i, 1)\<close>.\<close>

definition removeAtId :: "string \<Rightarrow> journal list \<Rightarrow> journal list" where
  "removeAtId journalId js =
     (case findIndex (\<lambda>j. jid j = journalId) js of
        Some i \<Rightarrow> splice1 i js
      | None \<Rightarrow> js)"

text \<open>
  The three branches of \<open>handleJournalSubmit\<close>. On a blob of the three kinds
  above nothing inside the inner \<open>try\<close> blocks throws but the awaited remote
  call, so their \<open>catch\<close> blocks run exactly on a failed or timed-out call.
\<close>

definition submitLocalUpdate ::
  "env \<Rightarrow> string \<Rightarrow> string \<Rightarrow> string \<Rightarrow> string \<Rightarrow> string list \<Rightarrow> state \<Rightarrow> state" where
  "submitLocalUpdate e uid journalId t c ts s =
     (let s1 = saveJournalToLocalStorage (now e) (newJournal journalId uid t c ts (now e)) s;
          s2 = s1\<lparr>userJournals := updateAtId journalId (patchJournal t c ts (now e)) (userJournals s1)\<rparr>
      in showMessage ''Journal updated locally!'' MsgSuccess (displayCombinedJournals s2))"

definition submitRemoteUpdate ::
  "env \<Rightarrow> string \<Rightarrow> string \<Rightarrow> string \<Rightarrow> string \<Rightarrow> string list \<Rightarrow> state \<Rightarrow> state" where
  "submitRemoteUpdate e uid journalId t c ts s =
     (let s1 = remoteCall (UpdateJournal journalId t c ts) s
      in if onUpdate e = UpdateOk
         then (let s2 = s1\<lparr>userJournals :=
                             updateAtId journalId (patchJournal t c ts (now e)) (userJournals s1),
                           allJournals :=
                             updateAtId journalId (patchJournal t c ts (now e)) (allJournals s1)\<rparr>
               in showMessage ''Journal updated successfully!'' MsgSuccess
                    (displayCombinedJournals s2))
         else (let s2 = consoleWarn ''Firestore update failed, saving to localStorage:'' s1;
                   s3 = saveJournalToLocalStorage (now e)
                          (newJournal journalId uid t c ts (now e)) s2;
                   s4 = s3\<lparr>userJournals :=
                             updateAtId journalId (patchJournal t c ts (now e)) (userJournals s3),
                           allJournals := removeAtId journalId (allJournals s3)\<rparr>
               in showMessage ''Journal updated locally! Will sync when online.'' MsgSuccess
                    (displayCombinedJournals s4)))"

definition localId :: "env \<Rightarrow> string" where
  "localId e = ''local-'' @ showInt (now e) @ ''-'' @ rnd e"

definition submitCreate ::
  "env \<Rightarrow> string \<Rightarrow> string \<Rightarrow> string \<Rightarrow> string list \<Rightarrow> state \<Rightarrow> state" where
  "submitCreate e uid t c ts s =
     (let s1 = remoteCall (AddDoc uid t c ts) s
      in case onCreate e of
           Created docId \<Rightarrow>
             (let s2 = s1\<lparr>userJournals := newJournal docId uid t c ts (now e) # userJournals s1\<rparr>
              in showMessage ''Journal created successfully!'' MsgSuccess
                   (displayCombinedJournals s2))
         | CreateFailed m \<Rightarrow>
             (let s2 = consoleWarn ''Firestore save failed, saving to localStorage:'' s1;
                  s3 = saveJournalToLocalStorage (now e)
                         (newJournal (localId e) uid t c ts (now e)) s2;
                  s4 = s3\<lparr>userJournals := newJournal (localId e) uid t c ts (now e) # userJournals s3\<rparr>
              in showMessage ''Journal saved locally! Will sync when online.'' MsgSuccess
                   (displayCombinedJournals s4))
         | CreateTimeout \<Rightarrow>
             (let s2 = consoleWarn ''Firestore save failed, saving to localStorage:'' s1;
                  s3 = saveJournalToLocalStorage (now e)
                         (newJournal (localId e) uid t c ts (now e)) s2;
                  s4 = s3\<lparr>userJournals := newJournal (localId e) uid t c ts (now e) # userJournals s3\<rparr>
              in showMessage ''Journal saved locally! Will sync when online.'' MsgSuccess
                   (displayCombinedJournals s4)))"

text \<open>
  \<open>handleJournalSubmit\<close>, up to its return: the reload it starts at the end is
  issued and has not settled.
\<close>

definition handleJournalSubmit :: "env \<Rightarrow> form \<Rightarrow> state \<Rightarrow> state" where
  "handleJournalSubmit e frm s =
     (case currentUser s of
        None \<Rightarrow> showMessage ''Please log in to create a journal'' MsgError s
      | Some uid \<Rightarrow>
          (let journalId = f_journalId frm;
               t = trim (f_title frm);
               c = trim (f_content frm);
               ts = parseTags (trim (f_tags frm))
           in if t = [] \<or> c = []
              then showMessage ''Please fill in both title and content'' MsgError s
              else loadUserJournals_issue
                     (if journalId \<noteq> []
                      then (if startsWith journalId ''local-''
                            then submitLocalUpdate e uid journalId t c ts s
                            else submitRemoteUpdate e uid journalId t c ts s)
                      else submitCreate e uid t c ts s)))"

subsection \<open>Edit and delete\<close>

fun joinWith :: "string \<Rightarrow> string list \<Rightarrow> string" where
  "joinWith sep [] = []"
| "joinWith sep [x] = x"
| "joinWith sep (x # y # ys) = x @ sep @ joinWith sep (y # ys)"

definition findJournal :: "string \<Rightarrow> state \<Rightarrow> journal option" where
  "findJournal journalId s =
     (case find (\<lambda>j. jid j = journalId) (userJournals s) of
        Some j \<Rightarrow> Some j
      | None \<Rightarrow>
          (case find (\<lambda>j. jid j = journalId) (allJournals s) of
             Some j \<Rightarrow> Some j
           | None \<Rightarrow>
               (case parseLocalJournals (localJournals s) of
                  Inl e \<Rightarrow> None
                | Inr js \<Rightarrow> find (\<lambda>j. jid j = journalId) js)))"

text \<open>
  \<open>editJournal\<close>: the form it opens, if any. This is where the owner of the
  journal is compared with the signed-in user.
\<close>

definition editJournal :: "string \<Rightarrow> state \<Rightarrow> form option \<times> state" where
  "editJournal journalId s =
     (let s1 = (if find (\<lambda>j. jid j = journalId) (userJournals s) = None
                  \<and> find (\<lambda>j. jid j = journalId) (allJournals s) = None
                  \<and> localJournals s = Unparseable
                then consoleError ''Error checking localStorage for journal:'' s else s)
      in case findJournal journalId s of
           None \<Rightarrow> (None, showMessage ''Journal not found or has been deleted'' MsgError s1)
         | Some j \<Rightarrow>
             if currentUser s \<noteq> Some (userId j)
             then (None, showMessage ''You can only edit your own journals'' MsgError s1)
             else (Some \<lparr>f_journalId = journalId, f_title = title j, f_content = content j,
                         f_tags = joinWith '', '' (tags j)\<rparr>, s1))"

text \<open>
  \<open>deleteJournal\<close>. \<open>confirmed\<close> is the answer of the confirm dialog; the
  awaited \<open>deleteDoc\<close> has no timeout, so it may also stay pending.
\<close>

definition deleteJournal :: "bool \<Rightarrow> delete_outcome \<Rightarrow> string \<Rightarrow> state \<Rightarrow> state" where
  "deleteJournal confirmed outcome journalId s =
     (if \<not> confirmed then s
      else if startsWith journalId ''local-''
      then (case parseLocalJournals (localJournals s) of
              Inl e \<Rightarrow>
                showMessage ''Error deleting journal from local storage'' MsgError
                  (consoleError ''Error deleting from localStorage:'' s)
            | Inr js \<Rightarrow>
                showMessage ''Journal deleted successfully'' MsgSuccess
                  (displayCombinedJournals
                     (s\<lparr>localJournals := Stored (filter (\<lambda>j. jid j \<noteq> journalId) js),
                        userJournals := filter (\<lambda>j. jid j \<noteq> journalId) (userJournals s)\<rparr>)))
      else (let s1 = remoteCall (DeleteDoc journalId) s
            in case outcome of
                 Deleted \<Rightarrow>
                   showMessage ''Journal deleted successfully'' MsgSuccess
                     (displayCombinedJournals
                        (s1\<lparr>userJournals := filter (\<lambda>j. jid j \<noteq> journalId) (userJournals s1)\<rparr>))
               | DeleteFailed m \<Rightarrow>
                   showMessage (''Error deleting journal: '' @ m) MsgError
                     (consoleError ''Error deleting journal:'' s1)
               | DeletePending \<Rightarrow> s1))"

subsection \<open>Search\<close>

definition matchesSearch :: "string \<Rightarrow> journal \<Rightarrow> bool" where
  "matchesSearch searchTerm j =
     ((title j \<noteq> [] \<and> includesStr (toLowerCase (title j)) searchTerm)
      \<or> (content j \<noteq> [] \<and> includesStr (toLowerCase (content j)) searchTerm)
      \<or> list_ex (\<lambda>tag. includesStr (toLowerCase tag) searchTerm) (tags j))"

text \<open>
  The list \<open>filterJournals\<close> searches: \<open>searchPool\<close>, or the samples when
  that is empty.
\<close>

definition searchPool :: "state \<Rightarrow> journal list" where
  "searchPool s = (if currentUser s \<noteq> None then allJournals s @ samples s else allJournals s)"

definition searchedJournals :: "state \<Rightarrow> journal list" where
  "searchedJournals s = (if searchPool s = [] then samples s else searchPool s)"

text \<open>
  The list \<open>filterJournals\<close> hands to the display. \<open>searchValue\<close> and
  \<open>filterValue\<close> are the values of the two controls, \<open>None\<close> when the control
  is not on the page.
\<close>

definition filteredJournals :: "string option \<Rightarrow> string option \<Rightarrow> state \<Rightarrow> journal list" where
  "filteredJournals searchValue filterValue s =
     (let searchTerm = (case searchValue of None \<Rightarrow> [] | Some v \<Rightarrow> toLowerCase v);
          filterType = (case filterValue of None \<Rightarrow> ''recent'' | Some v \<Rightarrow> v);
          found = (if searchTerm \<noteq> [] then filter (matchesSearch searchTerm) (searchedJournals s)
                   else searchedJournals s)
      in if filterType = ''oldest'' then rev found else found)"

definition filterJournals :: "string option \<Rightarrow> string option \<Rightarrow> state \<Rightarrow> state" where
  "filterJournals searchValue filterValue s =
     (if currentUser s \<noteq> None
      then displayFilteredCombinedJournals (filteredJournals searchValue filterValue s) s
      else displayJournals (filteredJournals searchValue filterValue s) False s)"

subsection \<open>Example values\<close>

text \<open>Concrete journals and states on which the theorems below are instantiated.\<close>

definition aliceJournal :: journal where
  "aliceJournal = newJournal ''r1'' ''alice'' ''Zebra'' ''Stripes'' [''zoo''] 10"

definition aliceState :: state where
  "aliceState = \<lparr>currentUser = Some ''alice'', userJournals = [aliceJournal],
     allJournals = [aliceJournal], localJournals = Absent, journalTranslations = TAbsent,
     language = None, journalsContainer = Some Initial, moduleLoadTime = 1000000000,
     remoteCalls = [], console = [], messages = []\<rparr>"

definition zebraES :: translation where
  "zebraES = \<lparr>tr_title = ''[ES] Zebra'', tr_content = ''[ES] Stripes'', tr_tags = [''[ES] zoo'']\<rparr>"

definition bobLocal :: journal where
  "bobLocal = newJournal ''local-7-x'' ''bob'' ''Notes'' ''Private'' [] 5"

definition bobRemote :: journal where
  "bobRemote = newJournal ''r9'' ''bob'' ''Ideas'' ''Draft'' [''todo''] 7"

definition sharedState :: state where
  "sharedState = aliceState\<lparr>allJournals := [aliceJournal, bobRemote],
                             localJournals := Stored [bobLocal]\<rparr>"

definition exampleEnv :: env where
  "exampleEnv = \<lparr>now = 20, rnd = ''abc'', onCreate = CreateTimeout, onUpdate = UpdateTimeout\<rparr>"

definition exampleForm :: "string \<Rightarrow> form" where
  "exampleForm i = \<lparr>f_journalId = i, f_title = '' Mine '', f_content = ''Now'', f_tags = ''a, b''\<rparr>"

definition corruptState :: state where
  "corruptState = aliceState\<lparr>localJournals := Unparseable\<rparr>"

definition guestState :: state where
  "guestState = sharedState\<lparr>currentUser := None\<rparr>"

section \<open>Framing lemmas\<close>

lemma showMessage_fields [simp]:
  "currentUser (showMessage m t s) = currentUser s"
  "userJournals (showMessage m t s) = userJournals s"
  "allJournals (showMessage m t s) = allJournals s"
  "localJournals (showMessage m t s) = localJournals s"
  "journalTranslations (showMessage m t s) = journalTranslations s"
  "language (showMessage m t s) = language s"
  "journalsContainer (showMessage m t s) = journalsContainer s"
  "moduleLoadTime (showMessage m t s) = moduleLoadTime s"
  "remoteCalls (showMessage m t s) = remoteCalls s"
  "console (showMessage m t s) = console s"
  "messages (showMessage m t s) = messages s @ [(t, m)]"
  by (simp_all add: showMessage_def)

lemma consoleError_fields [simp]:
  "currentUser (consoleError m s) = currentUser s"
  "userJournals (consoleError m s) = userJournals s"
  "allJournals (consoleError m s) = allJournals s"
  "localJournals (consoleError m s) = localJournals s"
  "journalTranslations (consoleError m s) = journalTranslations s"
  "language (consoleError m s) = language s"
  "journalsContainer (consoleError m s) = journalsContainer s"
  "moduleLoadTime (consoleError m s) = moduleLoadTime s"
  "remoteCalls (consoleError m s) = remoteCalls s"
  "console (consoleError m s) = console s @ [(LogError, m)]"
  "messages (consoleError m s) = messages s"
  by (simp_all add: consoleError_def)

lemma consoleWarn_fields [simp]:
  "currentUser (consoleWarn m s) = currentUser s"
  "userJournals (consoleWarn m s) = userJournals s"
  "allJournals (consoleWarn m s) = allJournals s"
  "localJournals (consoleWarn m s) = localJournals s"
  "journalTranslations (consoleWarn m s) = journalTranslations s"
  "language (consoleWarn m s) = language s"
  "journalsContainer (consoleWarn m s) = journalsContainer s"
  "moduleLoadTime (consoleWarn m s) = moduleLoadTime s"
  "remoteCalls (consoleWarn m s) = remoteCalls s"
  "console (consoleWarn m s) = console s @ [(LogWarn, m)]"
  "messages (consoleWarn m s) = messages s"
  by (simp_all add: consoleWarn_def)

lemma remoteCall_fields [simp]:
  "currentUser (remoteCall c s) = currentUser s"
  "userJournals (remoteCall c s) = userJournals s"
  "allJournals (remoteCall c s) = allJournals s"
  "localJournals (remoteCall c s) = localJournals s"
  "journalTranslations (remoteCall c s) = journalTranslations s"
  "language (remoteCall c s) = language s"
  "journalsContainer (remoteCall c s) = journalsContainer s"
  "moduleLoadTime (remoteCall c s) = moduleLoadTime s"
  "remoteCalls (remoteCall c s) = remoteCalls s @ [c]"
  "console (remoteCall c s) = console s"
  "messages (remoteCall c s) = messages s"
  by (simp_all add: remoteCall_def)

lemma displayCombinedJournals_fields [simp]:
  "currentUser (displayCombinedJournals s) = currentUser s"
  "userJournals (displayCombinedJournals s) = userJournals s"
  "allJournals (displayCombinedJournals s) = allJournals s"
  "localJournals (displayCombinedJournals s) = localJournals s"
  "journalTranslations (displayCombinedJournals s) = journalTranslations s"
  "language (displayCombinedJournals s) = language s"
  "moduleLoadTime (displayCombinedJournals s) = moduleLoadTime s"
  "remoteCalls (displayCombinedJournals s) = remoteCalls s"
  "messages (displayCombinedJournals s) = messages s"
  by (simp_all add: displayCombinedJournals_def Let_def split: option.splits sum.splits)

lemma displayJournals_fields [simp]:
  "currentUser (displayJournals js b s) = currentUser s"
  "userJournals (displayJournals js b s) = userJournals s"
  "allJournals (displayJournals js b s) = allJournals s"
  "localJournals (displayJournals js b s) = localJournals s"
  "journalTranslations (displayJournals js b s) = journalTranslations s"
  "language (displayJournals js b s) = language s"
  "moduleLoadTime (displayJournals js b s) = moduleLoadTime s"
  "remoteCalls (displayJournals js b s) = remoteCalls s"
  "console (displayJournals js b s) = console s"
  "messages (displayJournals js b s) = messages s"
  by (simp_all add: displayJournals_def split: option.splits)

lemma saveJournalToLocalStorage_fields [simp]:
  "currentUser (saveJournalToLocalStorage t j s) = currentUser s"
  "userJournals (saveJournalToLocalStorage t j s) = userJournals s"
  "allJournals (saveJournalToLocalStorage t j s) = allJournals s"
  "journalTranslations (saveJournalToLocalStorage t j s) = journalTranslations s"
  "language (saveJournalToLocalStorage t j s) = language s"
  "journalsContainer (saveJournalToLocalStorage t j s) = journalsContainer s"
  "moduleLoadTime (saveJournalToLocalStorage t j s) = moduleLoadTime s"
  "remoteCalls (saveJournalToLocalStorage t j s) = remoteCalls s"
  "messages (saveJournalToLocalStorage t j s) = messages s"
  by (simp_all add: saveJournalToLocalStorage_def split: option.splits sum.splits)

lemma samples_simps [simp]:
  "samples (showMessage m t s) = samples s"
  "samples (consoleError m s) = samples s"
  "samples (consoleWarn m s) = samples s"
  "samples (remoteCall c s) = samples s"
  "samples (displayCombinedJournals s) = samples s"
  "samples (saveJournalToLocalStorage i j s) = samples s"
  "samples (s\<lparr>userJournals := u\<rparr>) = samples s"
  "samples (s\<lparr>allJournals := a\<rparr>) = samples s"
  "samples (s\<lparr>localJournals := l\<rparr>) = samples s"
  "samples (s\<lparr>currentUser := cu\<rparr>) = samples s"
  by (simp_all add: samples_def)

lemma startsWith_append [simp]: "startsWith (p @ s) p"
  by (simp add: startsWith_def)

lemma saveTranslationToLocalStorage_language [simp]:
  "language (saveTranslationToLocalStorage i l t s) = language s"
  by (simp add: saveTranslationToLocalStorage_def Let_def split: sum.splits)

lemma currentLang_simps [simp]:
  "currentLang (remoteCall c s) = currentLang s"
  "currentLang (consoleWarn m s) = currentLang s"
  "currentLang (saveTranslationToLocalStorage i l t s) = currentLang s"
  by (simp_all add: currentLang_def)

lemma translateJournal_language:
  "currentLang (snd (translateJournal saved j lang s)) = currentLang s"
  by (simp add: translateJournal_def Let_def)

lemma translateJournal_jid:
  "jid (fst (translateJournal saved j lang s)) = jid j"
  by (simp add: translateJournal_def Let_def)

lemma translateJournal_has_translation:
  "currentLang s \<noteq> lang \<Longrightarrow> \<not> startsWith (jid j) ''sample-'' \<Longrightarrow>
   map_of (j_translations (fst (translateJournal saved j lang s))) lang \<noteq> None"
  by (simp add: translateJournal_def Let_def update_conv')

lemma sample_ids: "j \<in> set (SAMPLE_JOURNALS t0) \<Longrightarrow> startsWith (jid j) ''sample-''"
  by (auto simp: SAMPLE_JOURNALS_def sampleJournal_def startsWith_def)

lemma translate_example:
  "fst (translateJournal True aliceJournal ''es'' aliceState)
     = aliceJournal\<lparr>j_translations := [(''es'', zebraES)]\<rparr>"
  by (simp add: translateJournal_def aliceJournal_def aliceState_def newJournal_def
        currentLang_def startsWith_def translateText_def placeholders_def knownLanguages_def
        markers_def zebraES_def Let_def)

section \<open>Translation cache\<close>

text \<open>
  C8. A journal that already holds a translation for the requested language is
  returned as it is, and the state is untouched: nothing is synthesised again,
  no remote call is made and nothing is written to localStorage. The same
  holds for every journal whose identifier starts with \<open>sample-\<close>, in
  particular for the three static samples. Requesting the same language a
  second time gives back the result of the first request, so the marker is
  put in front of each field once.
\<close>

theorem translateJournal_cached_or_sample:
  "(map_of (j_translations j) lang = Some t \<longrightarrow> translateJournal saved j lang s = (j, s))
   \<and> (startsWith (jid j) ''sample-'' \<longrightarrow> translateJournal saved j lang s = (j, s))
   \<and> (j \<in> set (SAMPLE_JOURNALS t0) \<longrightarrow> translateJournal saved j lang s = (j, s))
   \<and> translateJournal again (fst (translateJournal saved j lang s)) lang
         (snd (translateJournal saved j lang s))
       = translateJournal saved j lang s"
proof (intro conjI impI)
  assume "map_of (j_translations j) lang = Some t"
  then show "translateJournal saved j lang s = (j, s)"
    by (simp add: translateJournal_def)
next
  assume "startsWith (jid j) ''sample-''"
  then show "translateJournal saved j lang s = (j, s)"
    by (simp add: translateJournal_def)
next
  assume "j \<in> set (SAMPLE_JOURNALS t0)"
  then have "startsWith (jid j) ''sample-''" by (rule sample_ids)
  then show "translateJournal saved j lang s = (j, s)"
    by (simp add: translateJournal_def)
next
  let ?r = "translateJournal saved j lang s"
  show "translateJournal again (fst ?r) lang (snd ?r) = ?r"
  proof (cases "currentLang s = lang \<or> startsWith (jid j) ''sample-''")
    case True
    then have "?r = (j, s)" by (auto simp: translateJournal_def)
    with True show ?thesis by (auto simp: translateJournal_def)
  next
    case False
    then have "map_of (j_translations (fst ?r)) lang \<noteq> None"
      by (simp add: translateJournal_has_translation)
    moreover have "currentLang (snd ?r) = currentLang s"
      by (rule translateJournal_language)
    moreover have "jid (fst ?r) = jid j"
      by (rule translateJournal_jid)
    ultimately have "translateJournal again (fst ?r) lang (snd ?r) = (fst ?r, snd ?r)"
      using False by (simp add: translateJournal_def)
    then show ?thesis by simp
  qed
qed

theorem translateJournal_cached_or_sample_witness:
  "map_of (j_translations (aliceJournal\<lparr>j_translations := [(''es'', zebraES)]\<rparr>)) ''es'' = Some zebraES
   \<and> translateJournal True (aliceJournal\<lparr>j_translations := [(''es'', zebraES)]\<rparr>) ''es'' aliceState
       = (aliceJournal\<lparr>j_translations := [(''es'', zebraES)]\<rparr>, aliceState)
   \<and> startsWith (jid (hd (SAMPLE_JOURNALS 0))) ''sample-''
   \<and> hd (SAMPLE_JOURNALS 0) \<in> set (SAMPLE_JOURNALS 0)
   \<and> translateJournal True (hd (SAMPLE_JOURNALS 0)) ''es'' aliceState
       = (hd (SAMPLE_JOURNALS 0), aliceState)
   \<and> fst (translateJournal True aliceJournal ''es'' aliceState)
       = aliceJournal\<lparr>j_translations := [(''es'', zebraES)]\<rparr>
   \<and> translateJournal False (fst (translateJournal True aliceJournal ''es'' aliceState)) ''es''
         (snd (translateJournal True aliceJournal ''es'' aliceState))
       = translateJournal True aliceJournal ''es'' aliceState"
  using translateJournal_cached_or_sample
          [of "aliceJournal\<lparr>j_translations := [(''es'', zebraES)]\<rparr>" "''es''" zebraES True aliceState 0 True]
        translateJournal_cached_or_sample
          [of "hd (SAMPLE_JOURNALS 0)" "''es''" zebraES True aliceState 0 True]
        translateJournal_cached_or_sample
          [of aliceJournal "''es''" zebraES True aliceState 0 False]
        translate_example
  by (simp add: SAMPLE_JOURNALS_def sampleJournal_def startsWith_def)

section \<open>Lemmas about the handlers\<close>

lemmas example_defs = aliceState_def aliceJournal_def newJournal_def bobLocal_def bobRemote_def sharedState_def
  exampleEnv_def exampleForm_def

lemma saveJournalToLocalStorage_localJournals_cong:
  "localJournals s = localJournals s' \<Longrightarrow>
   localJournals (saveJournalToLocalStorage t j s) = localJournals (saveJournalToLocalStorage t j s')"
  by (simp add: saveJournalToLocalStorage_def split: sum.splits option.splits)

lemma loadUserJournals_issue_fields [simp]:
  "currentUser (loadUserJournals_issue s) = currentUser s"
  "userJournals (loadUserJournals_issue s) = userJournals s"
  "allJournals (loadUserJournals_issue s) = allJournals s"
  "localJournals (loadUserJournals_issue s) = localJournals s"
  "journalsContainer (loadUserJournals_issue s) = journalsContainer s"
  "messages (loadUserJournals_issue s) = messages s"
  "console (loadUserJournals_issue s) = console s"
  by (simp_all add: loadUserJournals_issue_def split: option.splits)

lemma loadUserJournals_issue_calls:
  "currentUser s = Some uid \<Longrightarrow>
   remoteCalls (loadUserJournals_issue s) = remoteCalls s @ [GetDocsByUser uid]"
  by (simp add: loadUserJournals_issue_def)

lemma submitLocalUpdate_fields [simp]:
  "currentUser (submitLocalUpdate e uid i t c ts s) = currentUser s"
  "remoteCalls (submitLocalUpdate e uid i t c ts s) = remoteCalls s"
  "allJournals (submitLocalUpdate e uid i t c ts s) = allJournals s"
  "localJournals (submitLocalUpdate e uid i t c ts s)
     = localJournals (saveJournalToLocalStorage (now e) (newJournal i uid t c ts (now e)) s)"
  by (simp_all add: submitLocalUpdate_def Let_def)

lemma submitRemoteUpdate_fields [simp]:
  "currentUser (submitRemoteUpdate e uid i t c ts s) = currentUser s"
  "remoteCalls (submitRemoteUpdate e uid i t c ts s) = remoteCalls s @ [UpdateJournal i t c ts]"
  "localJournals (submitRemoteUpdate e uid i t c ts s)
     = (if onUpdate e = UpdateOk then localJournals s
        else localJournals (saveJournalToLocalStorage (now e) (newJournal i uid t c ts (now e)) s))"
  by (simp_all add: submitRemoteUpdate_def Let_def
        saveJournalToLocalStorage_localJournals_cong [of "consoleWarn m (remoteCall c' s)" s for m c'])

lemma submitCreate_fields [simp]:
  "currentUser (submitCreate e uid t c ts s) = currentUser s"
  "remoteCalls (submitCreate e uid t c ts s) = remoteCalls s @ [AddDoc uid t c ts]"
  "allJournals (submitCreate e uid t c ts s) = allJournals s"
  by (simp_all add: submitCreate_def Let_def split: create_outcome.splits)

lemma findIndex_Some:
  "findIndex P xs = Some i \<Longrightarrow> i < length xs \<and> P (xs ! i)"
proof (induction xs arbitrary: i)
  case Nil
  then show ?case by simp
next
  case (Cons x xs)
  show ?case
  proof (cases "P x")
    case True
    with Cons.prems show ?thesis by simp
  next
    case False
    with Cons.prems obtain k where k: "findIndex P xs = Some k" "i = Suc k"
      by auto
    from Cons.IH [OF k(1)] k(2) show ?thesis by simp
  qed
qed

lemma submitCreate_userJournals:
  "userJournals (submitCreate e uid t c ts s)
     = newJournal (case onCreate e of Created d \<Rightarrow> d | _ \<Rightarrow> localId e) uid t c ts (now e)
       # userJournals s"
  by (simp add: submitCreate_def Let_def split: create_outcome.splits)

lemma submitCreate_localJournals:
  "localJournals (submitCreate e uid t c ts s)
     = (case onCreate e of
          Created d \<Rightarrow> localJournals s
        | _ \<Rightarrow> localJournals (saveJournalToLocalStorage (now e)
                  (newJournal (localId e) uid t c ts (now e)) s))"
  by (simp add: submitCreate_def Let_def
        saveJournalToLocalStorage_localJournals_cong [of "consoleWarn m (remoteCall c' s)" s for m c']
      split: create_outcome.splits)

lemma loadUserJournals_issue_samples [simp]:
  "samples (loadUserJournals_issue s) = samples s"
  by (simp add: loadUserJournals_issue_def split: option.splits)

lemma combinedJournals_simps [simp]:
  "combinedJournals (s\<lparr>userJournals := u\<rparr>) = combinedJournals s"
  "combinedJournals (showMessage m t s) = combinedJournals s"
  "combinedJournals (consoleError m s) = combinedJournals s"
  "combinedJournals (consoleWarn m s) = combinedJournals s"
  "combinedJournals (remoteCall c s) = combinedJournals s"
  "combinedJournals (displayCombinedJournals s) = combinedJournals s"
  "combinedJournals (loadUserJournals_issue s) = combinedJournals s"
  by (simp_all add: combinedJournals_def storedJournals_def)

lemma samples_nonempty [simp]: "samples s \<noteq> []"
  by (simp add: samples_def SAMPLE_JOURNALS_def)

lemma combinedJournals_nonempty [simp]: "combinedJournals s \<noteq> []"
  by (simp add: combinedJournals_def storedJournals_def)

lemma card_id_renderCard [simp]: "card_id (renderCard s a j) = jid j"
  by (simp add: renderCard_def Let_def)

lemma displayedIds_displayCombinedJournals:
  "displayedIds (displayCombinedJournals s)
     = (if journalsContainer s = None then [] else map jid (combinedJournals s))"
  by (auto simp: displayedIds_def displayCombinedJournals_def Let_def comp_def
      split: option.splits sum.splits)

lemma displayedIds_simps [simp]:
  "displayedIds (showMessage m t s) = displayedIds s"
  "displayedIds (loadUserJournals_issue s) = displayedIds s"
  "displayedIds (remoteCall c s) = displayedIds s"
  by (simp_all add: displayedIds_def)

lemma journalsContainer_displayCombinedJournals_None [simp]:
  "journalsContainer (displayCombinedJournals s) = None \<longleftrightarrow> journalsContainer s = None"
  by (auto simp: displayCombinedJournals_def Let_def split: option.splits sum.splits)

lemma loadUserJournals_settle_displayed:
  "displayedIds (loadUserJournals_settle q s)
     = (if journalsContainer s = None then [] else map jid (combinedJournals s))"
  by (cases q)
     (auto simp: loadUserJournals_settle_def Let_def displayedIds_displayCombinedJournals
       split: sum.splits option.splits)

lemma submitCreate_container_None [simp]:
  "journalsContainer (submitCreate e uid t c ts s) = None \<longleftrightarrow> journalsContainer s = None"
  by (simp add: submitCreate_def Let_def split: create_outcome.splits)

lemma submitCreate_combined_created:
  "onCreate e = Created d \<Longrightarrow> combinedJournals (submitCreate e uid t c ts s) = combinedJournals s"
  by (simp add: submitCreate_def Let_def)

lemma submitCreate_displayed_created:
  "onCreate e = Created d \<Longrightarrow>
   displayedIds (submitCreate e uid t c ts s)
     = (if journalsContainer s = None then [] else map jid (combinedJournals s))"
  by (simp add: submitCreate_def Let_def displayedIds_displayCombinedJournals)

section \<open>Delete\<close>

text \<open>
  C5. A confirmed delete of an identifier that starts with \<open>local-\<close> makes no
  remote call, leaves \<open>allJournals\<close> alone and, when the blob parses, writes
  back the stored list without the records of that identifier. A confirmed
  delete of any other identifier issues one \<open>deleteDoc\<close> call and never
  writes the fallback store, whatever the store answers. When that call
  fails, \<open>userJournals\<close>, \<open>allJournals\<close> and the rendered view are as
  before, and the error text is shown to the user and logged.
\<close>

theorem deleteJournal_routing:
  "(startsWith journalId ''local-'' \<longrightarrow>
      remoteCalls (deleteJournal True outcome journalId s) = remoteCalls s
      \<and> allJournals (deleteJournal True outcome journalId s) = allJournals s
      \<and> (parseLocalJournals (localJournals s) = Inr js \<longrightarrow>
           localJournals (deleteJournal True outcome journalId s)
             = Stored (filter (\<lambda>j. jid j \<noteq> journalId) js)))
   \<and> (\<not> startsWith journalId ''local-'' \<longrightarrow>
      remoteCalls (deleteJournal True outcome journalId s) = remoteCalls s @ [DeleteDoc journalId]
      \<and> localJournals (deleteJournal True outcome journalId s) = localJournals s)
   \<and> (\<not> startsWith journalId ''local-'' \<longrightarrow>
      userJournals (deleteJournal True (DeleteFailed m) journalId s) = userJournals s
      \<and> allJournals (deleteJournal True (DeleteFailed m) journalId s) = allJournals s
      \<and> journalsContainer (deleteJournal True (DeleteFailed m) journalId s) = journalsContainer s
      \<and> messages (deleteJournal True (DeleteFailed m) journalId s)
           = messages s @ [(MsgError, ''Error deleting journal: '' @ m)]
      \<and> console (deleteJournal True (DeleteFailed m) journalId s)
           = console s @ [(LogError, ''Error deleting journal:'')])"
  by (cases outcome) (auto simp: deleteJournal_def Let_def split: sum.splits)

theorem deleteJournal_routing_witness:
  "startsWith ''local-7-x'' ''local-''
   \<and> parseLocalJournals (localJournals sharedState) = Inr [bobLocal]
   \<and> remoteCalls (deleteJournal True Deleted ''local-7-x'' sharedState) = []
   \<and> localJournals (deleteJournal True Deleted ''local-7-x'' sharedState) = Stored []
   \<and> \<not> startsWith ''r1'' ''local-''
   \<and> remoteCalls (deleteJournal True Deleted ''r1'' sharedState) = [DeleteDoc ''r1'']
   \<and> localJournals (deleteJournal True Deleted ''r1'' sharedState) = Stored [bobLocal]
   \<and> userJournals (deleteJournal True (DeleteFailed ''permission-denied'') ''r1'' sharedState)
        = [aliceJournal]
   \<and> messages (deleteJournal True (DeleteFailed ''permission-denied'') ''r1'' sharedState)
        = [(MsgError, ''Error deleting journal: permission-denied'')]"
  using deleteJournal_routing [of "''local-7-x''" Deleted sharedState "[bobLocal]" "''permission-denied''"]
        deleteJournal_routing [of "''r1''" Deleted sharedState "[bobLocal]" "''permission-denied''"]
  by (simp add: startsWith_def parseLocalJournals_def example_defs)

section \<open>Update routing\<close>

lemma upsert_member:
  "j \<in> set (case findIndex (\<lambda>x. jid x = jid j) js of
               Some i \<Rightarrow> js[i := j] | None \<Rightarrow> js @ [j])"
proof (cases "findIndex (\<lambda>x. jid x = jid j) js")
  case None
  then show ?thesis by simp
next
  case (Some i)
  then have "i < length js" by (simp add: findIndex_Some)
  with Some show ?thesis by (simp add: set_update_memI)
qed

lemma upsert_others:
  "filter (\<lambda>x. jid x \<noteq> jid j)
     (case findIndex (\<lambda>x. jid x = jid j) js of Some i \<Rightarrow> js[i := j] | None \<Rightarrow> js @ [j])
   = filter (\<lambda>x. jid x \<noteq> jid j) js"
proof (induction js)
  case Nil
  show ?case by simp
next
  case (Cons x xs)
  show ?case
  proof (cases "jid x = jid j")
    case True
    then show ?thesis by simp
  next
    case False
    with Cons.IH show ?thesis
      by (cases "findIndex (\<lambda>x. jid x = jid j) xs") simp_all
  qed
qed

lemma saveJournalToLocalStorage_stored:
  assumes "parseLocalJournals (localJournals s) = Inr js" and "updatedAt j = Some t"
  shows "localJournals (saveJournalToLocalStorage t j s)
           = Stored (case findIndex (\<lambda>x. jid x = jid j) js of
                       Some i \<Rightarrow> js[i := j] | None \<Rightarrow> js @ [j])"
proof -
  from assms(2) have "j\<lparr>updatedAt := Some t\<rparr> = j" by simp
  with assms(1) show ?thesis
    by (simp add: saveJournalToLocalStorage_def split: option.splits)
qed

lemma saveJournalToLocalStorage_unparseable:
  "localJournals s = Unparseable \<Longrightarrow>
   localJournals (saveJournalToLocalStorage t j s) = Unparseable"
  by (simp add: saveJournalToLocalStorage_def parseLocalJournals_def)

lemma storedJournals_Stored: "localJournals s = Stored js \<Longrightarrow> storedJournals s = js"
  by (simp add: storedJournals_def parseLocalJournals_def)

lemma storedJournals_Unparseable: "localJournals s = Unparseable \<Longrightarrow> storedJournals s = []"
  by (simp add: storedJournals_def parseLocalJournals_def)

lemma saved_store_facts:
  assumes "localJournals s' = localJournals (saveJournalToLocalStorage t j s)"
    and "updatedAt j = Some t"
  shows "(parseLocalJournals (localJournals s) = Inr js \<longrightarrow>
            localJournals s'
              = Stored (case findIndex (\<lambda>x. jid x = jid j) js of
                          Some i \<Rightarrow> js[i := j] | None \<Rightarrow> js @ [j])
            \<and> j \<in> set (storedJournals s')
            \<and> filter (\<lambda>x. jid x \<noteq> jid j) (storedJournals s')
                = filter (\<lambda>x. jid x \<noteq> jid j) js)
       \<and> (localJournals s = Unparseable \<longrightarrow>
            localJournals s' = Unparseable \<and> storedJournals s' = [])"
proof (intro conjI impI)
  assume p: "parseLocalJournals (localJournals s) = Inr js"
  let ?js' = "case findIndex (\<lambda>x. jid x = jid j) js of
                Some i \<Rightarrow> js[i := j] | None \<Rightarrow> js @ [j]"
  show st: "localJournals s' = Stored ?js'"
    using assms saveJournalToLocalStorage_stored [OF p assms(2)] by simp
  then have "storedJournals s' = ?js'" by (rule storedJournals_Stored)
  then show "j \<in> set (storedJournals s')"
    and "filter (\<lambda>x. jid x \<noteq> jid j) (storedJournals s') = filter (\<lambda>x. jid x \<noteq> jid j) js"
    by (simp_all only: upsert_member upsert_others)
next
  assume u: "localJournals s = Unparseable"
  then show "localJournals s' = Unparseable"
    using assms(1) by (simp add: saveJournalToLocalStorage_unparseable)
  then show "storedJournals s' = []" by (rule storedJournals_Unparseable)
qed

text \<open>
  C4, as the code has it. For a signed-in user and a form with a non-empty
  identifier, title and content: if the identifier starts with \<open>local-\<close>,
  the only remote call of the handler is the reload query it starts at its
  end, so no remote update is attempted; for any other identifier the handler
  first issues the remote update, and when that succeeds the fallback store
  is left as it is. In the \<open>local-\<close> case, and when the remote update fails
  or times out, the record built from the form (owner, trimmed title and
  content, tags, both instants set to the clock, no translations) is written
  under the identifier of the form, provided the blob parses: it replaces the
  first stored record of that identifier in place, or is appended when there
  is none, and every stored record of another identifier is kept. On an
  unparseable blob the write is dropped: the blob stays unparseable and
  nothing is stored.
\<close>

theorem handleJournalSubmit_update_routing:
  assumes "currentUser s = Some uid"
    and "f_journalId frm \<noteq> []"
    and "trim (f_title frm) \<noteq> []"
    and "trim (f_content frm) \<noteq> []"
  shows "(startsWith (f_journalId frm) ''local-'' \<longrightarrow>
            remoteCalls (handleJournalSubmit e frm s) = remoteCalls s @ [GetDocsByUser uid])
       \<and> (\<not> startsWith (f_journalId frm) ''local-'' \<longrightarrow>
            remoteCalls (handleJournalSubmit e frm s)
              = remoteCalls s @ [UpdateJournal (f_journalId frm) (trim (f_title frm))
                                   (trim (f_content frm)) (parseTags (trim (f_tags frm))),
                                 GetDocsByUser uid])
       \<and> (\<not> startsWith (f_journalId frm) ''local-'' \<and> onUpdate e = UpdateOk \<longrightarrow>
            localJournals (handleJournalSubmit e frm s) = localJournals s)
       \<and> ((startsWith (f_journalId frm) ''local-'' \<or> onUpdate e \<noteq> UpdateOk)
            \<and> parseLocalJournals (localJournals s) = Inr js \<longrightarrow>
            localJournals (handleJournalSubmit e frm s)
              = Stored (case findIndex (\<lambda>x. jid x = f_journalId frm) js of
                          Some i \<Rightarrow>
                            js[i := \<lparr>jid = f_journalId frm, userId = uid,
                                     title = trim (f_title frm), content = trim (f_content frm),
                                     tags = parseTags (trim (f_tags frm)),
                                     createdAt = now e, updatedAt = Some (now e),
                                     j_translations = []\<rparr>]
                        | None \<Rightarrow>
                            js @ [\<lparr>jid = f_journalId frm, userId = uid,
                                    title = trim (f_title frm), content = trim (f_content frm),
                                    tags = parseTags (trim (f_tags frm)),
                                    createdAt = now e, updatedAt = Some (now e),
                                    j_translations = []\<rparr>])
            \<and> \<lparr>jid = f_journalId frm, userId = uid,
                 title = trim (f_title frm), content = trim (f_content frm),
                 tags = parseTags (trim (f_tags frm)),
                 createdAt = now e, updatedAt = Some (now e), j_translations = []\<rparr>
                \<in> set (storedJournals (handleJournalSubmit e frm s))
            \<and> filter (\<lambda>x. jid x \<noteq> f_journalId frm) (storedJournals (handleJournalSubmit e frm s))
                = filter (\<lambda>x. jid x \<noteq> f_journalId frm) js)
       \<and> ((startsWith (f_journalId frm) ''local-'' \<or> onUpdate e \<noteq> UpdateOk)
            \<and> localJournals s = Unparseable \<longrightarrow>
            localJournals (handleJournalSubmit e frm s) = Unparseable
            \<and> storedJournals (handleJournalSubmit e frm s) = [])"
proof -
  let ?i = "f_journalId frm"
  let ?t = "trim (f_title frm)" and ?c = "trim (f_content frm)"
    and ?ts = "parseTags (trim (f_tags frm))"
  let ?rec = "\<lparr>jid = ?i, userId = uid, title = ?t, content = ?c, tags = ?ts,
               createdAt = now e, updatedAt = Some (now e), j_translations = []\<rparr>"
  let ?s' = "handleJournalSubmit e frm s"
  have rec: "newJournal ?i uid ?t ?c ?ts (now e) = ?rec"
    by (simp add: newJournal_def)
  have calls_local: "startsWith ?i ''local-'' \<Longrightarrow>
      remoteCalls ?s' = remoteCalls s @ [GetDocsByUser uid]"
    using assms by (simp add: handleJournalSubmit_def Let_def loadUserJournals_issue_calls)
  have calls_remote: "\<not> startsWith ?i ''local-'' \<Longrightarrow>
      remoteCalls ?s' = remoteCalls s @ [UpdateJournal ?i ?t ?c ?ts, GetDocsByUser uid]"
    using assms by (simp add: handleJournalSubmit_def Let_def loadUserJournals_issue_calls)
  have ok: "\<not> startsWith ?i ''local-'' \<and> onUpdate e = UpdateOk \<Longrightarrow>
      localJournals ?s' = localJournals s"
    using assms by (simp add: handleJournalSubmit_def Let_def)
  have saved: "startsWith ?i ''local-'' \<or> onUpdate e \<noteq> UpdateOk \<Longrightarrow>
      localJournals ?s' = localJournals (saveJournalToLocalStorage (now e) ?rec s)"
    using assms by (auto simp: handleJournalSubmit_def Let_def rec)
  have facts: "startsWith ?i ''local-'' \<or> onUpdate e \<noteq> UpdateOk \<Longrightarrow>
      (parseLocalJournals (localJournals s) = Inr js \<longrightarrow>
            localJournals ?s'
              = Stored (case findIndex (\<lambda>x. jid x = jid ?rec) js of
                          Some i \<Rightarrow> js[i := ?rec] | None \<Rightarrow> js @ [?rec])
            \<and> ?rec \<in> set (storedJournals ?s')
            \<and> filter (\<lambda>x. jid x \<noteq> jid ?rec) (storedJournals ?s')
                = filter (\<lambda>x. jid x \<noteq> jid ?rec) js)
       \<and> (localJournals s = Unparseable \<longrightarrow>
            localJournals ?s' = Unparseable \<and> storedJournals ?s' = [])"
    by (rule saved_store_facts [OF saved]) simp_all
  have jr: "jid ?rec = ?i" by simp
  from calls_local calls_remote ok facts [unfolded jr] show ?thesis by blast
qed

theorem handleJournalSubmit_update_routing_witness:
  "currentUser sharedState = Some ''alice''
   \<and> trim (f_title (exampleForm ''r1'')) \<noteq> [] \<and> trim (f_content (exampleForm ''r1'')) \<noteq> []
   \<and> parseLocalJournals (localJournals sharedState) = Inr [bobLocal]
   \<and> startsWith (f_journalId (exampleForm ''local-7-x'')) ''local-''
   \<and> remoteCalls (handleJournalSubmit exampleEnv (exampleForm ''local-7-x'') sharedState)
        = [GetDocsByUser ''alice'']
   \<and> localJournals (handleJournalSubmit exampleEnv (exampleForm ''local-7-x'') sharedState)
        = Stored [\<lparr>jid = ''local-7-x'', userId = ''alice'', title = ''Mine'', content = ''Now'',
                    tags = [''a'', ''b''], createdAt = 20, updatedAt = Some 20,
                    j_translations = []\<rparr>]
   \<and> \<not> startsWith (f_journalId (exampleForm ''r1'')) ''local-''
   \<and> remoteCalls (handleJournalSubmit exampleEnv (exampleForm ''r1'') sharedState)
        = [UpdateJournal ''r1'' ''Mine'' ''Now'' [''a'', ''b''], GetDocsByUser ''alice'']
   \<and> onUpdate exampleEnv \<noteq> UpdateOk
   \<and> localJournals (handleJournalSubmit exampleEnv (exampleForm ''r1'') sharedState)
        = Stored [bobLocal,
                  \<lparr>jid = ''r1'', userId = ''alice'', title = ''Mine'', content = ''Now'',
                    tags = [''a'', ''b''], createdAt = 20, updatedAt = Some 20,
                    j_translations = []\<rparr>]
   \<and> onUpdate (exampleEnv\<lparr>onUpdate := UpdateOk\<rparr>) = UpdateOk
   \<and> localJournals (handleJournalSubmit (exampleEnv\<lparr>onUpdate := UpdateOk\<rparr>) (exampleForm ''r1'') sharedState)
        = Stored [bobLocal]"
  using handleJournalSubmit_update_routing
          [of sharedState "''alice''" "exampleForm ''local-7-x''" exampleEnv "[bobLocal]"]
        handleJournalSubmit_update_routing
          [of sharedState "''alice''" "exampleForm ''r1''" exampleEnv "[bobLocal]"]
        handleJournalSubmit_update_routing
          [of sharedState "''alice''" "exampleForm ''r1''" "exampleEnv\<lparr>onUpdate := UpdateOk\<rparr>"
              "[bobLocal]"]
  by (simp add: example_defs startsWith_def trim_def isSpace_def parseTags_def
        parseLocalJournals_def)

text \<open>
  C4 as stated fails: with an unparseable fallback blob the update of a
  \<open>local-\<close> journal makes no remote call, reports
  \<open>Journal updated locally!\<close> and writes nothing, and the timed-out update of
  a remote journal writes nothing either.
\<close>

theorem update_on_unparseable_store_writes_nothing:
  "currentUser corruptState = Some ''alice''
   \<and> localJournals corruptState = Unparseable
   \<and> localJournals (handleJournalSubmit exampleEnv (exampleForm ''local-7-x'') corruptState)
       = Unparseable
   \<and> storedJournals (handleJournalSubmit exampleEnv (exampleForm ''local-7-x'') corruptState) = []
   \<and> remoteCalls (handleJournalSubmit exampleEnv (exampleForm ''local-7-x'') corruptState)
       = [GetDocsByUser ''alice'']
   \<and> messages (handleJournalSubmit exampleEnv (exampleForm ''local-7-x'') corruptState)
       = [(MsgSuccess, ''Journal updated locally!'')]
   \<and> onUpdate exampleEnv = UpdateTimeout
   \<and> localJournals (handleJournalSubmit exampleEnv (exampleForm ''r1'') corruptState)
       = Unparseable
   \<and> storedJournals (handleJournalSubmit exampleEnv (exampleForm ''r1'') corruptState) = []"
proof -
  have u: "currentUser corruptState = Some ''alice''"
    and l: "localJournals corruptState = Unparseable"
    and r: "remoteCalls corruptState = []"
    and m: "messages corruptState = []"
    by (simp_all add: corruptState_def aliceState_def)
  have f: "trim '' Mine '' = ''Mine''" "trim ''Now'' = ''Now''"
          "parseTags (trim ''a, b'') = [''a'', ''b'']"
    by (simp_all add: trim_def isSpace_def parseTags_def)
  let ?a = "handleJournalSubmit exampleEnv (exampleForm ''local-7-x'') corruptState"
  let ?b = "handleJournalSubmit exampleEnv (exampleForm ''r1'') corruptState"
  have ha: "?a = loadUserJournals_issue
             (submitLocalUpdate exampleEnv ''alice'' ''local-7-x'' ''Mine'' ''Now'' [''a'', ''b'']
                corruptState)"
    by (simp add: handleJournalSubmit_def Let_def u exampleForm_def f startsWith_def)
  have hb: "?b = loadUserJournals_issue
             (submitRemoteUpdate exampleEnv ''alice'' ''r1'' ''Mine'' ''Now'' [''a'', ''b'']
                corruptState)"
    by (simp add: handleJournalSubmit_def Let_def u exampleForm_def f startsWith_def)
  have la: "localJournals ?a = Unparseable"
    unfolding ha by (simp add: saveJournalToLocalStorage_unparseable l)
  have ca: "remoteCalls ?a = [GetDocsByUser ''alice'']"
    unfolding ha by (simp add: loadUserJournals_issue_calls [of _ "''alice''"] u r)
  have ma: "messages ?a = [(MsgSuccess, ''Journal updated locally!'')]"
    unfolding ha by (simp add: submitLocalUpdate_def Let_def m)
  have e: "onUpdate exampleEnv = UpdateTimeout"
    by (simp add: exampleEnv_def)
  have lb: "localJournals ?b = Unparseable"
    unfolding hb by (simp add: e saveJournalToLocalStorage_unparseable l)
  from u l la ca ma e lb storedJournals_Unparseable [OF la] storedJournals_Unparseable [OF lb]
  show ?thesis by blast
qed

section \<open>Create\<close>

text \<open>
  C3, as the code has it. For a signed-in user and a form with an empty
  identifier and non-empty title and content: when \<open>addDoc\<close> resolves with a
  document identifier, the journal whose \<open>id\<close> is that identifier is put in
  front of \<open>userJournals\<close> and the fallback store is not written. When
  \<open>addDoc\<close> fails or times out, the journal put in front of
  \<open>userJournals\<close> has the identifier \<open>local-\<close>, clock, \<open>-\<close>, random
  suffix; provided the blob parses, that same journal is written to the
  fallback store (replacing a stored record of its identifier, or appended)
  and the other stored records are kept; on an unparseable blob the blob
  stays unparseable and nothing is stored. In each case this is the state
  when the handler returns: the create call and then the reload query have
  been issued, and the reload has not been answered.
\<close>

theorem handleJournalSubmit_create:
  assumes "currentUser s = Some uid"
    and "f_journalId frm = []"
    and "trim (f_title frm) \<noteq> []"
    and "trim (f_content frm) \<noteq> []"
  shows "(onCreate e = Created docId \<longrightarrow>
            userJournals (handleJournalSubmit e frm s)
              = \<lparr>jid = docId, userId = uid,
                  title = trim (f_title frm), content = trim (f_content frm),
                  tags = parseTags (trim (f_tags frm)),
                  createdAt = now e, updatedAt = Some (now e), j_translations = []\<rparr>
                # userJournals s
            \<and> jid (hd (userJournals (handleJournalSubmit e frm s))) = docId
            \<and> localJournals (handleJournalSubmit e frm s) = localJournals s)
       \<and> (onCreate e = CreateTimeout \<or> onCreate e = CreateFailed m \<longrightarrow>
            userJournals (handleJournalSubmit e frm s)
              = \<lparr>jid = ''local-'' @ showInt (now e) @ ''-'' @ rnd e, userId = uid,
                  title = trim (f_title frm), content = trim (f_content frm),
                  tags = parseTags (trim (f_tags frm)),
                  createdAt = now e, updatedAt = Some (now e), j_translations = []\<rparr>
                # userJournals s
            \<and> jid (hd (userJournals (handleJournalSubmit e frm s)))
                = ''local-'' @ showInt (now e) @ ''-'' @ rnd e
            \<and> startsWith (jid (hd (userJournals (handleJournalSubmit e frm s)))) ''local-'')
       \<and> ((onCreate e = CreateTimeout \<or> onCreate e = CreateFailed m)
            \<and> parseLocalJournals (localJournals s) = Inr js \<longrightarrow>
            localJournals (handleJournalSubmit e frm s)
              = Stored (case findIndex (\<lambda>x. jid x = ''local-'' @ showInt (now e) @ ''-'' @ rnd e) js of
                          Some i \<Rightarrow> js[i := hd (userJournals (handleJournalSubmit e frm s))]
                        | None \<Rightarrow> js @ [hd (userJournals (handleJournalSubmit e frm s))])
            \<and> hd (userJournals (handleJournalSubmit e frm s))
                \<in> set (storedJournals (handleJournalSubmit e frm s))
            \<and> filter (\<lambda>x. jid x \<noteq> ''local-'' @ showInt (now e) @ ''-'' @ rnd e)
                 (storedJournals (handleJournalSubmit e frm s))
                = filter (\<lambda>x. jid x \<noteq> ''local-'' @ showInt (now e) @ ''-'' @ rnd e) js)
       \<and> ((onCreate e = CreateTimeout \<or> onCreate e = CreateFailed m)
            \<and> localJournals s = Unparseable \<longrightarrow>
            localJournals (handleJournalSubmit e frm s) = Unparseable
            \<and> storedJournals (handleJournalSubmit e frm s) = [])
       \<and> remoteCalls (handleJournalSubmit e frm s)
           = remoteCalls s @ [AddDoc uid (trim (f_title frm)) (trim (f_content frm))
                                (parseTags (trim (f_tags frm))),
                              GetDocsByUser uid]"
proof -
  let ?t = "trim (f_title frm)" and ?c = "trim (f_content frm)"
    and ?ts = "parseTags (trim (f_tags frm))"
  let ?lid = "''local-'' @ showInt (now e) @ ''-'' @ rnd e"
  let ?rec = "\<lambda>i. \<lparr>jid = i, userId = uid, title = ?t, content = ?c, tags = ?ts,
                   createdAt = now e, updatedAt = Some (now e), j_translations = []\<rparr>"
  let ?s' = "handleJournalSubmit e frm s"
  let ?fail = "onCreate e = CreateTimeout \<or> onCreate e = CreateFailed m"
  have h: "?s' = loadUserJournals_issue (submitCreate e uid ?t ?c ?ts s)"
    using assms by (simp add: handleJournalSubmit_def Let_def)
  have rec: "\<And>i. newJournal i uid ?t ?c ?ts (now e) = ?rec i"
    by (simp add: newJournal_def)
  have lid: "localId e = ?lid" by (simp add: localId_def)
  have created: "onCreate e = Created docId \<Longrightarrow>
      userJournals ?s' = ?rec docId # userJournals s \<and> localJournals ?s' = localJournals s"
    by (simp add: h submitCreate_userJournals submitCreate_localJournals rec)
  have failed_u: "?fail \<Longrightarrow> userJournals ?s' = ?rec ?lid # userJournals s"
    by (auto simp: h submitCreate_userJournals rec lid)
  have failed_l: "?fail \<Longrightarrow>
      localJournals ?s' = localJournals (saveJournalToLocalStorage (now e) (?rec ?lid) s)"
    by (auto simp: h submitCreate_localJournals rec lid)
  have facts: "?fail \<Longrightarrow>
      (parseLocalJournals (localJournals s) = Inr js \<longrightarrow>
            localJournals ?s'
              = Stored (case findIndex (\<lambda>x. jid x = jid (?rec ?lid)) js of
                          Some i \<Rightarrow> js[i := ?rec ?lid] | None \<Rightarrow> js @ [?rec ?lid])
            \<and> ?rec ?lid \<in> set (storedJournals ?s')
            \<and> filter (\<lambda>x. jid x \<noteq> jid (?rec ?lid)) (storedJournals ?s')
                = filter (\<lambda>x. jid x \<noteq> jid (?rec ?lid)) js)
       \<and> (localJournals s = Unparseable \<longrightarrow>
            localJournals ?s' = Unparseable \<and> storedJournals ?s' = [])"
    by (rule saved_store_facts [OF failed_l]) simp_all
  have jr: "jid (?rec ?lid) = ?lid" by simp
  have calls: "remoteCalls ?s' = remoteCalls s @ [AddDoc uid ?t ?c ?ts, GetDocsByUser uid]"
    using assms(1) by (simp add: h loadUserJournals_issue_calls)
  have a: "onCreate e = Created docId \<longrightarrow>
            userJournals ?s' = ?rec docId # userJournals s
            \<and> jid (hd (userJournals ?s')) = docId
            \<and> localJournals ?s' = localJournals s"
    using created by simp
  have b: "?fail \<longrightarrow>
            userJournals ?s' = ?rec ?lid # userJournals s
            \<and> jid (hd (userJournals ?s')) = ?lid
            \<and> startsWith (jid (hd (userJournals ?s'))) ''local-''"
    using failed_u by (simp add: startsWith_def)
  have hdrec: "?fail \<Longrightarrow> hd (userJournals ?s') = ?rec ?lid"
    using failed_u by simp
  have c: "?fail \<and> parseLocalJournals (localJournals s) = Inr js \<longrightarrow>
            localJournals ?s'
              = Stored (case findIndex (\<lambda>x. jid x = ?lid) js of
                          Some i \<Rightarrow> js[i := hd (userJournals ?s')]
                        | None \<Rightarrow> js @ [hd (userJournals ?s')])
            \<and> hd (userJournals ?s') \<in> set (storedJournals ?s')
            \<and> filter (\<lambda>x. jid x \<noteq> ?lid) (storedJournals ?s')
                = filter (\<lambda>x. jid x \<noteq> ?lid) js"
  proof (intro impI, elim conjE)
    assume fl: ?fail and p: "parseLocalJournals (localJournals s) = Inr js"
    from facts [OF fl, unfolded jr] p show
      "localJournals ?s'
              = Stored (case findIndex (\<lambda>x. jid x = ?lid) js of
                          Some i \<Rightarrow> js[i := hd (userJournals ?s')]
                        | None \<Rightarrow> js @ [hd (userJournals ?s')])
            \<and> hd (userJournals ?s') \<in> set (storedJournals ?s')
            \<and> filter (\<lambda>x. jid x \<noteq> ?lid) (storedJournals ?s')
                = filter (\<lambda>x. jid x \<noteq> ?lid) js"
      unfolding hdrec [OF fl] by blast
  qed
  have d: "?fail \<and> localJournals s = Unparseable \<longrightarrow>
            localJournals ?s' = Unparseable \<and> storedJournals ?s' = []"
    using facts by blast
  from a b c d calls show ?thesis by blast
qed

theorem handleJournalSubmit_create_witness:
  "currentUser aliceState = Some ''alice''
   \<and> f_journalId (exampleForm []) = []
   \<and> trim (f_title (exampleForm [])) \<noteq> [] \<and> trim (f_content (exampleForm [])) \<noteq> []
   \<and> onCreate (exampleEnv\<lparr>onCreate := Created ''r2''\<rparr>) = Created ''r2''
   \<and> userJournals (handleJournalSubmit (exampleEnv\<lparr>onCreate := Created ''r2''\<rparr>) (exampleForm []) aliceState)
        = [\<lparr>jid = ''r2'', userId = ''alice'', title = ''Mine'', content = ''Now'',
             tags = [''a'', ''b''], createdAt = 20, updatedAt = Some 20, j_translations = []\<rparr>,
           aliceJournal]
   \<and> jid (hd (userJournals (handleJournalSubmit (exampleEnv\<lparr>onCreate := Created ''r2''\<rparr>)
                                (exampleForm []) aliceState))) = ''r2''
   \<and> localJournals (handleJournalSubmit (exampleEnv\<lparr>onCreate := Created ''r2''\<rparr>) (exampleForm []) aliceState)
        = Absent
   \<and> onCreate exampleEnv = CreateTimeout
   \<and> parseLocalJournals (localJournals aliceState) = Inr []
   \<and> userJournals (handleJournalSubmit exampleEnv (exampleForm []) aliceState)
        = [\<lparr>jid = ''local-20-abc'', userId = ''alice'', title = ''Mine'', content = ''Now'',
             tags = [''a'', ''b''], createdAt = 20, updatedAt = Some 20, j_translations = []\<rparr>,
           aliceJournal]
   \<and> jid (hd (userJournals (handleJournalSubmit exampleEnv (exampleForm []) aliceState)))
        = ''local-20-abc''
   \<and> localJournals (handleJournalSubmit exampleEnv (exampleForm []) aliceState)
        = Stored [\<lparr>jid = ''local-20-abc'', userId = ''alice'', title = ''Mine'', content = ''Now'',
                    tags = [''a'', ''b''], createdAt = 20, updatedAt = Some 20,
                    j_translations = []\<rparr>]
   \<and> remoteCalls (handleJournalSubmit exampleEnv (exampleForm []) aliceState)
        = [AddDoc ''alice'' ''Mine'' ''Now'' [''a'', ''b''], GetDocsByUser ''alice'']"
  using handleJournalSubmit_create [of aliceState "''alice''" "exampleForm []"
            "exampleEnv\<lparr>onCreate := Created ''r2''\<rparr>" "''r2''" "[]" "[]"]
        handleJournalSubmit_create [of aliceState "''alice''" "exampleForm []" exampleEnv
            "''r2''" "[]" "[]"]
  by (simp add: example_defs trim_def isSpace_def parseTags_def showInt_def
        decimal.simps digitChar_def parseLocalJournals_def)

text \<open>
  C3 as stated fails: with an unparseable fallback blob a create that times
  out gives the journal a \<open>local-\<close> identifier and reports
  \<open>Journal saved locally! Will sync when online.\<close>, and the fallback store
  holds no record.
\<close>

theorem create_on_unparseable_store_stores_nothing:
  "currentUser corruptState = Some ''alice''
   \<and> localJournals corruptState = Unparseable
   \<and> onCreate exampleEnv = CreateTimeout
   \<and> jid (hd (userJournals (handleJournalSubmit exampleEnv (exampleForm []) corruptState)))
       = ''local-20-abc''
   \<and> localJournals (handleJournalSubmit exampleEnv (exampleForm []) corruptState) = Unparseable
   \<and> storedJournals (handleJournalSubmit exampleEnv (exampleForm []) corruptState) = []
   \<and> messages (handleJournalSubmit exampleEnv (exampleForm []) corruptState)
       = [(MsgSuccess, ''Journal saved locally! Will sync when online.'')]"
proof -
  have u: "currentUser corruptState = Some ''alice''"
    and l: "localJournals corruptState = Unparseable"
    and m: "messages corruptState = []"
    by (simp_all add: corruptState_def aliceState_def)
  have f: "trim '' Mine '' = ''Mine''" "trim ''Now'' = ''Now''"
          "parseTags (trim ''a, b'') = [''a'', ''b'']"
    by (simp_all add: trim_def isSpace_def parseTags_def)
  have e: "onCreate exampleEnv = CreateTimeout"
    by (simp add: exampleEnv_def)
  let ?a = "handleJournalSubmit exampleEnv (exampleForm []) corruptState"
  have h: "?a = loadUserJournals_issue
             (submitCreate exampleEnv ''alice'' ''Mine'' ''Now'' [''a'', ''b''] corruptState)"
    by (simp add: handleJournalSubmit_def Let_def u exampleForm_def f)
  have i: "localId exampleEnv = ''local-20-abc''"
    by (simp add: localId_def exampleEnv_def showInt_def decimal.simps digitChar_def)
  have j: "jid (hd (userJournals ?a)) = ''local-20-abc''"
    unfolding h by (simp add: submitCreate_userJournals e i newJournal_def)
  have la: "localJournals ?a = Unparseable"
    unfolding h by (simp add: submitCreate_localJournals e saveJournalToLocalStorage_unparseable l)
  have ma: "messages ?a = [(MsgSuccess, ''Journal saved locally! Will sync when online.'')]"
    unfolding h by (simp add: submitCreate_def Let_def e m)
  from u l e j la ma storedJournals_Unparseable [OF la] show ?thesis by blast
qed

section \<open>What the merged view is built from\<close>

text \<open>
  C10. The cards drawn by \<open>displayCombinedJournals\<close> are those of
  \<open>allJournals\<close>, then the fallback store, then the samples;
  \<open>userJournals\<close> has no influence on them. So after a create that the
  remote store accepted, under an identifier that none of the three sources
  holds, the new journal is in \<open>userJournals\<close> and not among the cards, also
  after the reload of \<open>userJournals\<close> has been answered; it is among the
  cards once \<open>loadAllJournals\<close> has fetched a snapshot that holds it.
\<close>

theorem merged_view_ignores_userJournals:
  assumes "currentUser s = Some uid"
    and "f_journalId frm = []"
    and "trim (f_title frm) \<noteq> []"
    and "trim (f_content frm) \<noteq> []"
    and "onCreate e = Created docId"
    and "docId \<notin> jid ` set (combinedJournals s)"
  shows "displayedIds (displayCombinedJournals (s\<lparr>userJournals := u\<rparr>))
           = displayedIds (displayCombinedJournals s)
       \<and> (journalsContainer s \<noteq> None \<longrightarrow>
           displayedIds (displayCombinedJournals s)
             = map jid (allJournals s)
               @ map jid (storedJournals s)
               @ map jid (samples s))
       \<and> docId \<in> jid ` set (userJournals (handleJournalSubmit e frm s))
       \<and> docId \<notin> set (displayedIds (handleJournalSubmit e frm s))
       \<and> docId \<notin> set (displayedIds (loadUserJournals_settle q (handleJournalSubmit e frm s)))
       \<and> (journalsContainer s \<noteq> None \<and> docId \<in> jid ` set docs \<longrightarrow>
           docId \<in> set (displayedIds (loadAllJournals (Snapshot docs) (handleJournalSubmit e frm s))))"
proof -
  let ?t = "trim (f_title frm)" and ?c = "trim (f_content frm)"
    and ?ts = "parseTags (trim (f_tags frm))"
  let ?s' = "handleJournalSubmit e frm s"
  have h: "?s' = loadUserJournals_issue (submitCreate e uid ?t ?c ?ts s)"
    using assms by (simp add: handleJournalSubmit_def Let_def)
  have a: "displayedIds (displayCombinedJournals (s\<lparr>userJournals := u\<rparr>))
           = displayedIds (displayCombinedJournals s)"
    by (simp add: displayedIds_displayCombinedJournals)
  have b: "journalsContainer s \<noteq> None \<longrightarrow>
           displayedIds (displayCombinedJournals s)
             = map jid (allJournals s)
               @ map jid (storedJournals s)
               @ map jid (samples s)"
    by (simp add: displayedIds_displayCombinedJournals combinedJournals_def storedJournals_def)
  have c: "docId \<in> jid ` set (userJournals ?s')"
    using assms(5) by (simp add: h submitCreate_userJournals newJournal_def)
  have comb: "combinedJournals ?s' = combinedJournals s"
    using assms(5) by (simp add: h submitCreate_combined_created)
  have cont: "journalsContainer ?s' = None \<longleftrightarrow> journalsContainer s = None"
    by (simp add: h)
  have d: "docId \<notin> set (displayedIds ?s')"
    using assms(5,6) by (simp add: h submitCreate_displayed_created)
  have e: "docId \<notin> set (displayedIds (loadUserJournals_settle q ?s'))"
    using assms(6) by (simp add: loadUserJournals_settle_displayed comb)
  have f: "journalsContainer s \<noteq> None \<and> docId \<in> jid ` set docs \<longrightarrow>
           docId \<in> set (displayedIds (loadAllJournals (Snapshot docs) ?s'))"
    using assms(1) cont
    by (auto simp: loadAllJournals_def loadAllJournals_settle_def Let_def h
          displayedIds_displayCombinedJournals combinedJournals_def storedJournals_def)
  from a b c d e f show ?thesis by blast
qed

theorem merged_view_ignores_userJournals_witness:
  "currentUser aliceState = Some ''alice''
   \<and> f_journalId (exampleForm []) = []
   \<and> trim (f_title (exampleForm [])) \<noteq> [] \<and> trim (f_content (exampleForm [])) \<noteq> []
   \<and> onCreate (exampleEnv\<lparr>onCreate := Created ''r2''\<rparr>) = Created ''r2''
   \<and> ''r2'' \<notin> jid ` set (combinedJournals aliceState)
   \<and> journalsContainer aliceState \<noteq> None
   \<and> ''r2'' \<in> jid ` set [newJournal ''r2'' ''alice'' ''Mine'' ''Now'' [''a'', ''b''] 20, aliceJournal]
   \<and> ''r2'' \<in> jid ` set (userJournals
         (handleJournalSubmit (exampleEnv\<lparr>onCreate := Created ''r2''\<rparr>) (exampleForm []) aliceState))
   \<and> ''r2'' \<notin> set (displayedIds
         (handleJournalSubmit (exampleEnv\<lparr>onCreate := Created ''r2''\<rparr>) (exampleForm []) aliceState))
   \<and> ''r2'' \<notin> set (displayedIds (loadUserJournals_settle (Snapshot [])
         (handleJournalSubmit (exampleEnv\<lparr>onCreate := Created ''r2''\<rparr>) (exampleForm []) aliceState)))
   \<and> ''r2'' \<in> set (displayedIds (loadAllJournals
         (Snapshot [newJournal ''r2'' ''alice'' ''Mine'' ''Now'' [''a'', ''b''] 20, aliceJournal])
         (handleJournalSubmit (exampleEnv\<lparr>onCreate := Created ''r2''\<rparr>) (exampleForm []) aliceState)))"
  using merged_view_ignores_userJournals [of aliceState "''alice''" "exampleForm []"
          "exampleEnv\<lparr>onCreate := Created ''r2''\<rparr>" "''r2''" "[]" "Snapshot []"
          "[newJournal ''r2'' ''alice'' ''Mine'' ''Now'' [''a'', ''b''] 20, aliceJournal]"]
  by (simp add: example_defs trim_def isSpace_def combinedJournals_def storedJournals_def parseLocalJournals_def
        samples_def SAMPLE_JOURNALS_def sampleJournal_def)

section \<open>Ownership at the point of mutation\<close>

text \<open>
  C1. Alice is signed in; the fallback store holds a journal of Bob and
  \<open>allJournals\<close> holds another. \<open>editJournal\<close> refuses to open Bob's
  journal. \<open>deleteJournal\<close> and \<open>handleJournalSubmit\<close> compare no owner:
  the delete removes Bob's record from the fallback store, the submit
  overwrites it with a record owned by Alice, and for Bob's remote journal
  both issue the remote call; when the store rejects the update, a copy owned
  by Alice is saved to the fallback store under Bob's identifier.
\<close>

theorem mutation_skips_ownership_check:
  "currentUser sharedState = Some ''alice''
   \<and> userId bobLocal = ''bob'' \<and> jid bobLocal = ''local-7-x''
   \<and> userId bobRemote = ''bob'' \<and> jid bobRemote = ''r9''
   \<and> editJournal ''local-7-x'' sharedState
       = (None, showMessage ''You can only edit your own journals'' MsgError sharedState)
   \<and> localJournals sharedState = Stored [bobLocal]
   \<and> localJournals (deleteJournal True Deleted ''local-7-x'' sharedState) = Stored []
   \<and> localJournals (handleJournalSubmit exampleEnv (exampleForm ''local-7-x'') sharedState)
       = Stored [newJournal ''local-7-x'' ''alice'' ''Mine'' ''Now'' [''a'', ''b''] 20]
   \<and> remoteCalls (deleteJournal True (DeleteFailed ''permission-denied'') ''r9'' sharedState)
       = [DeleteDoc ''r9'']
   \<and> remoteCalls (handleJournalSubmit (exampleEnv\<lparr>onUpdate := UpdateFailed ''permission-denied''\<rparr>)
                     (exampleForm ''r9'') sharedState)
       = [UpdateJournal ''r9'' ''Mine'' ''Now'' [''a'', ''b''], GetDocsByUser ''alice'']
   \<and> localJournals (handleJournalSubmit (exampleEnv\<lparr>onUpdate := UpdateFailed ''permission-denied''\<rparr>)
                     (exampleForm ''r9'') sharedState)
       = Stored [bobLocal, newJournal ''r9'' ''alice'' ''Mine'' ''Now'' [''a'', ''b''] 20]"
proof -
  have u: "currentUser sharedState = Some ''alice''"
    and l: "localJournals sharedState = Stored [bobLocal]"
    and r: "remoteCalls sharedState = []"
    by (simp_all add: sharedState_def aliceState_def)
  have b: "userId bobLocal = ''bob'' \<and> jid bobLocal = ''local-7-x''
           \<and> userId bobRemote = ''bob'' \<and> jid bobRemote = ''r9''"
    by (simp add: bobLocal_def bobRemote_def newJournal_def)
  have e: "editJournal ''local-7-x'' sharedState
       = (None, showMessage ''You can only edit your own journals'' MsgError sharedState)"
    by (simp add: editJournal_def findJournal_def parseLocalJournals_def example_defs Let_def)
  have d: "localJournals (deleteJournal True Deleted ''local-7-x'' sharedState) = Stored []"
    by (simp add: deleteJournal_def startsWith_def parseLocalJournals_def l b)
  have d9: "remoteCalls (deleteJournal True (DeleteFailed ''permission-denied'') ''r9'' sharedState)
       = [DeleteDoc ''r9'']"
    by (simp add: deleteJournal_def startsWith_def Let_def r)
  have f: "trim '' Mine '' = ''Mine''" "trim ''Now'' = ''Now''"
          "parseTags (trim ''a, b'') = [''a'', ''b'']"
    by (simp_all add: trim_def isSpace_def parseTags_def)
  have hl: "handleJournalSubmit exampleEnv (exampleForm ''local-7-x'') sharedState
          = loadUserJournals_issue
              (submitLocalUpdate exampleEnv ''alice'' ''local-7-x'' ''Mine'' ''Now'' [''a'', ''b'']
                 sharedState)"
    by (simp add: handleJournalSubmit_def Let_def u exampleForm_def f startsWith_def)
  have sl: "localJournals (handleJournalSubmit exampleEnv (exampleForm ''local-7-x'') sharedState)
       = Stored [newJournal ''local-7-x'' ''alice'' ''Mine'' ''Now'' [''a'', ''b''] 20]"
    unfolding hl
    by (simp add: saveJournalToLocalStorage_def parseLocalJournals_def l exampleEnv_def
          bobLocal_def newJournal_def)
  let ?e = "exampleEnv\<lparr>onUpdate := UpdateFailed ''permission-denied''\<rparr>"
  have hr: "handleJournalSubmit ?e (exampleForm ''r9'') sharedState
          = loadUserJournals_issue
              (submitRemoteUpdate ?e ''alice'' ''r9'' ''Mine'' ''Now'' [''a'', ''b''] sharedState)"
    by (simp add: handleJournalSubmit_def Let_def u exampleForm_def f startsWith_def)
  have cr: "remoteCalls (handleJournalSubmit ?e (exampleForm ''r9'') sharedState)
       = [UpdateJournal ''r9'' ''Mine'' ''Now'' [''a'', ''b''], GetDocsByUser ''alice'']"
    unfolding hr by (simp add: loadUserJournals_issue_calls [of _ "''alice''"] u r)
  have sr: "localJournals (handleJournalSubmit ?e (exampleForm ''r9'') sharedState)
       = Stored [bobLocal, newJournal ''r9'' ''alice'' ''Mine'' ''Now'' [''a'', ''b''] 20]"
    unfolding hr
    by (simp add: saveJournalToLocalStorage_def parseLocalJournals_def l exampleEnv_def
          bobLocal_def newJournal_def)
  from u b e l d sl d9 cr sr show ?thesis by blast
qed

section \<open>Sign-out\<close>

lemma sample_card_ids:
  "map jid (samples s) = [''sample-1'', ''sample-2'', ''sample-3'']"
  by (simp add: samples_def SAMPLE_JOURNALS_def sampleJournal_def)

text \<open>
  C7, as the code has it. When the listener is called with \<open>null\<close>,
  \<open>currentUser\<close> becomes \<open>null\<close> and, if the container is on the page, the
  view is the three samples without buttons and without owner badge.
  \<open>userJournals\<close> and \<open>allJournals\<close> are not cleared: they, the fallback
  store and the list of remote calls are as before.
\<close>

theorem authStateChanged_signout:
  "currentUser (authStateChanged None s) = None
   \<and> userJournals (authStateChanged None s) = userJournals s
   \<and> allJournals (authStateChanged None s) = allJournals s
   \<and> localJournals (authStateChanged None s) = localJournals s
   \<and> remoteCalls (authStateChanged None s) = remoteCalls s
   \<and> (journalsContainer s \<noteq> None \<longrightarrow>
        journalsContainer (authStateChanged None s)
          = Some (Cards (map (renderCard (s\<lparr>currentUser := None\<rparr>) (\<lambda>j. False)) (samples s)))
        \<and> (\<exists>cs. journalsContainer (authStateChanged None s) = Some (Cards cs)
              \<and> map card_id cs = [''sample-1'', ''sample-2'', ''sample-3'']
              \<and> list_all (\<lambda>c. \<not> card_actions c \<and> \<not> card_owner_badge c) cs))"
  by (auto simp: authStateChanged_def Let_def displayJournals_def samples_def
        SAMPLE_JOURNALS_def sampleJournal_def renderCard_def isOwner_def
      split: option.splits)

theorem authStateChanged_signout_witness:
  "journalsContainer aliceState \<noteq> None
   \<and> displayedIds (authStateChanged None aliceState) = [''sample-1'', ''sample-2'', ''sample-3'']
   \<and> userJournals (authStateChanged None aliceState) = userJournals aliceState"
  using authStateChanged_signout [of aliceState]
  by (auto simp: aliceState_def displayedIds_def)

text \<open>
  C7 as stated fails: after the sign-out of Alice her journal is still in
  \<open>userJournals\<close>.
\<close>

theorem signout_keeps_userJournals:
  "userJournals (authStateChanged None aliceState) = [aliceJournal]
   \<and> userJournals (authStateChanged None aliceState) \<noteq> []"
  by (simp add: authStateChanged_def Let_def aliceState_def)

section \<open>Search\<close>

lemma startsWith_iff: "startsWith s t \<longleftrightarrow> (\<exists>q. s = t @ q)"
proof
  assume "startsWith s t"
  then have "s = t @ drop (length t) s"
    by (metis append_take_drop_id startsWith_def)
  then show "\<exists>q. s = t @ q" ..
next
  assume "\<exists>q. s = t @ q"
  then show "startsWith s t" by (auto simp: startsWith_def)
qed

lemma includesStr_iff: "includesStr s t \<longleftrightarrow> (\<exists>p q. s = p @ t @ q)"
proof (induction s)
  case Nil
  show ?case by auto
next
  case (Cons x xs)
  show ?case
  proof
    assume "includesStr (x # xs) t"
    then consider "startsWith (x # xs) t" | "includesStr xs t" by auto
    then show "\<exists>p q. x # xs = p @ t @ q"
    proof cases
      case 1
      then obtain q where "x # xs = t @ q" by (auto simp: startsWith_iff)
      then have "x # xs = [] @ t @ q" by simp
      then show ?thesis by blast
    next
      case 2
      with Cons.IH obtain p q where "xs = p @ t @ q" by blast
      then have "x # xs = (x # p) @ t @ q" by simp
      then show ?thesis by blast
    qed
  next
    assume "\<exists>p q. x # xs = p @ t @ q"
    then obtain p q where pq: "x # xs = p @ t @ q" by blast
    show "includesStr (x # xs) t"
    proof (cases p)
      case Nil
      with pq have "startsWith (x # xs) t" by (auto simp: startsWith_iff)
      then show ?thesis by simp
    next
      case (Cons a p')
      with pq have "xs = p' @ t @ q" by simp
      with Cons.IH have "includesStr xs t" by blast
      then show ?thesis by simp
    qed
  qed
qed

lemma toLowerCase_Nil [simp]: "toLowerCase v = [] \<longleftrightarrow> v = []"
  by (simp add: toLowerCase_def)



lemma matchesSearch_iff:
  assumes "term \<noteq> []"
  shows "matchesSearch term j \<longleftrightarrow>
         (\<exists>p q. toLowerCase (title j) = p @ term @ q)
         \<or> (\<exists>p q. toLowerCase (content j) = p @ term @ q)
         \<or> (\<exists>tag p q. tag \<in> set (tags j) \<and> toLowerCase tag = p @ term @ q)"
proof -
  have empty: "\<And>x. x = [] \<Longrightarrow> \<not> (\<exists>p q. toLowerCase x = p @ term @ q)"
    using assms by (simp add: toLowerCase_def)
  have t: "(title j \<noteq> [] \<and> includesStr (toLowerCase (title j)) term)
           \<longleftrightarrow> (\<exists>p q. toLowerCase (title j) = p @ term @ q)"
    using empty [of "title j"] by (auto simp: includesStr_iff)
  have c: "(content j \<noteq> [] \<and> includesStr (toLowerCase (content j)) term)
           \<longleftrightarrow> (\<exists>p q. toLowerCase (content j) = p @ term @ q)"
    using empty [of "content j"] by (auto simp: includesStr_iff)
  have g: "list_ex (\<lambda>tag. includesStr (toLowerCase tag) term) (tags j)
           \<longleftrightarrow> (\<exists>tag p q. tag \<in> set (tags j) \<and> toLowerCase tag = p @ term @ q)"
    by (auto simp: list_ex_iff includesStr_iff)
  show ?thesis unfolding matchesSearch_def t c g ..
qed

lemma filteredJournals_subset:
  "set (filteredJournals searchValue filterValue s) \<subseteq> set (searchedJournals s)"
  by (auto simp: filteredJournals_def searchedJournals_def searchPool_def Let_def)

text \<open>
  C6, as the code has it. The search term and the journal's title, content
  and tags are lower-cased, and a journal is kept when the term is a
  substring of one of them; an empty term keeps every journal. The list
  searched is \<open>allJournals\<close> followed by the samples for a signed-in user,
  and \<open>allJournals\<close> alone for a guest, with the samples in its place when
  it is empty: the fallback store is not searched. With the filter set to
  \<open>oldest\<close> the kept journals are reversed, and the result is what the
  container then shows.
\<close>

theorem filterJournals_search:
  "filteredJournals searchValue filterValue s
     = (if filterValue = Some ''oldest'' then rev else (\<lambda>js. js))
         (if searchValue = None \<or> searchValue = Some [] then searchedJournals s
          else filter (\<lambda>j.
                 (\<exists>p q. toLowerCase (title j) = p @ toLowerCase (the searchValue) @ q)
                 \<or> (\<exists>p q. toLowerCase (content j) = p @ toLowerCase (the searchValue) @ q)
                 \<or> (\<exists>tag p q. tag \<in> set (tags j)
                       \<and> toLowerCase tag = p @ toLowerCase (the searchValue) @ q))
               (searchedJournals s))
   \<and> searchedJournals s
       = (if currentUser s \<noteq> None then allJournals s @ samples s
          else if allJournals s = [] then samples s else allJournals s)
   \<and> displayedIds (filterJournals searchValue filterValue s)
       = (if journalsContainer s = None then []
          else map jid (filteredJournals searchValue filterValue s))"
proof (intro conjI)
  show "searchedJournals s
       = (if currentUser s \<noteq> None then allJournals s @ samples s
          else if allJournals s = [] then samples s else allJournals s)"
    by (simp add: searchedJournals_def searchPool_def Let_def)
  show "displayedIds (filterJournals searchValue filterValue s)
       = (if journalsContainer s = None then []
          else map jid (filteredJournals searchValue filterValue s))"
    by (auto simp: filterJournals_def displayedIds_def displayFilteredCombinedJournals_def
          displayJournals_def comp_def split: option.splits)
  show "filteredJournals searchValue filterValue s
     = (if filterValue = Some ''oldest'' then rev else (\<lambda>js. js))
         (if searchValue = None \<or> searchValue = Some [] then searchedJournals s
          else filter (\<lambda>j.
                 (\<exists>p q. toLowerCase (title j) = p @ toLowerCase (the searchValue) @ q)
                 \<or> (\<exists>p q. toLowerCase (content j) = p @ toLowerCase (the searchValue) @ q)
                 \<or> (\<exists>tag p q. tag \<in> set (tags j)
                       \<and> toLowerCase tag = p @ toLowerCase (the searchValue) @ q))
               (searchedJournals s))"
  proof (cases searchValue)
    case None
    then show ?thesis
      by (cases filterValue) (auto simp: filteredJournals_def searchedJournals_def searchPool_def Let_def)
  next
    case (Some v)
    show ?thesis
    proof (cases "v = []")
      case True
      with Some show ?thesis
        by (cases filterValue) (auto simp: filteredJournals_def searchedJournals_def searchPool_def Let_def)
    next
      case False
      then have "toLowerCase v \<noteq> []" by simp
      then have m: "matchesSearch (toLowerCase v) = (\<lambda>j.
                 (\<exists>p q. toLowerCase (title j) = p @ toLowerCase v @ q)
                 \<or> (\<exists>p q. toLowerCase (content j) = p @ toLowerCase v @ q)
                 \<or> (\<exists>tag p q. tag \<in> set (tags j) \<and> toLowerCase tag = p @ toLowerCase v @ q))"
        by (intro ext) (rule matchesSearch_iff)
      from Some False show ?thesis
        by (cases filterValue) (auto simp: filteredJournals_def searchedJournals_def searchPool_def Let_def m)
    qed
  qed
qed

theorem filterJournals_search_witness:
  "searchedJournals guestState = [aliceJournal, bobRemote]
   \<and> filteredJournals (Some ''ZEB'') None guestState = [aliceJournal]
   \<and> filteredJournals (Some ''R'') (Some ''oldest'') guestState = [bobRemote, aliceJournal]
   \<and> filteredJournals (Some []) (Some ''oldest'') guestState = [bobRemote, aliceJournal]"
  using filterJournals_search [of "Some ''ZEB''" None guestState]
        filterJournals_search [of "Some ''R''" "Some ''oldest''" guestState]
  by (simp add: filteredJournals_def searchedJournals_def searchPool_def matchesSearch_def
        guestState_def example_defs toLowerCase_def lowerChar_def upperAlphabet_def
        lowerAlphabet_def startsWith_def Let_def)

text \<open>
  C6 as stated fails: Bob's journal in the fallback store is part of the
  merged list and matches the term, and the search does not return it.
\<close>

theorem search_skips_fallback_store:
  "bobLocal \<in> set (combinedJournals sharedState)
   \<and> matchesSearch (toLowerCase ''Notes'') bobLocal
   \<and> bobLocal \<notin> set (filteredJournals (Some ''Notes'') None sharedState)"
proof -
  have "bobLocal \<in> set (combinedJournals sharedState)"
    by (simp add: combinedJournals_def storedJournals_def parseLocalJournals_def sharedState_def)
  moreover have "matchesSearch (toLowerCase ''Notes'') bobLocal"
    by (simp add: matchesSearch_def bobLocal_def newJournal_def toLowerCase_def lowerChar_def
          upperAlphabet_def lowerAlphabet_def startsWith_def)
  moreover have "bobLocal \<notin> set (searchedJournals sharedState)"
    by (simp add: searchedJournals_def searchPool_def samples_def SAMPLE_JOURNALS_def sampleJournal_def example_defs)
  then have "bobLocal \<notin> set (filteredJournals (Some ''Notes'') None sharedState)"
    using filteredJournals_subset by blast
  ultimately show ?thesis by blast
qed

section \<open>An unparseable fallback store\<close>

lemma displayCombinedJournals_console:
  "console (displayCombinedJournals s)
     = console s @ (if journalsContainer s \<noteq> None \<and> localJournals s = Unparseable
                    then [(LogError, ''Error parsing localStorage journals:'')] else [])"
  by (cases "localJournals s")
     (auto simp: displayCombinedJournals_def parseLocalJournals_def Let_def split: option.splits)

lemma displayCombinedJournals_container:
  "journalsContainer (displayCombinedJournals s)
     = (if journalsContainer s = None then None
        else Some (Cards (map (renderCard s (isOwner s)) (combinedJournals s))))"
  by (auto simp: displayCombinedJournals_def Let_def split: option.splits sum.splits)

lemma renderCard_cong:
  "currentUser s = currentUser s' \<Longrightarrow> language s = language s' \<Longrightarrow>
   renderCard s (isOwner s) = renderCard s' (isOwner s')"
  by (intro ext) (simp add: renderCard_def isOwner_def currentLang_def Let_def)

text \<open>
  C9, as the code has it. The handlers are total state transformers: the
  \<open>SyntaxError\<close> of \<open>JSON.parse\<close> is a value that each of them takes apart,
  so it reaches no caller. On an unparseable blob
  \<open>saveJournalToLocalStorage\<close> logs and changes nothing else, so the record
  is not stored and the blob stays unparseable; \<open>displayCombinedJournals\<close>
  draws what it would draw for an empty store and logs; the fallback read of
  \<open>loadUserJournals\<close> logs, shows an error message and leaves
  \<open>userJournals\<close> as it was.
\<close>

theorem unparseable_store_handling:
  assumes "localJournals s = Unparseable"
  shows "saveJournalToLocalStorage t j s
           = consoleError ''Failed to save journal to localStorage:'' s
       \<and> localJournals (saveJournalToLocalStorage t j s) = Unparseable
       \<and> journalsContainer (displayCombinedJournals s)
           = journalsContainer (displayCombinedJournals (s\<lparr>localJournals := Stored []\<rparr>))
       \<and> (journalsContainer s \<noteq> None \<longrightarrow>
            console (displayCombinedJournals s)
              = console s @ [(LogError, ''Error parsing localStorage journals:'')])
       \<and> userJournals (loadUserJournals_settle (QueryFailed m) s) = userJournals s
       \<and> localJournals (loadUserJournals_settle (QueryFailed m) s) = Unparseable
       \<and> messages (loadUserJournals_settle (QueryFailed m) s)
           = messages s @ [(MsgError, ''Error loading your journals'')]
       \<and> console (loadUserJournals_settle (QueryFailed m) s)
           = console s @ [(LogError, ''Error loading user journals from Firestore:''),
                          (LogError, ''Error loading local journals:'')]
               @ (if journalsContainer s = None then []
                  else [(LogError, ''Error parsing localStorage journals:'')])"
proof -
  have p: "parseLocalJournals (localJournals s) = Inl ''SyntaxError''"
    using assms by (simp add: parseLocalJournals_def)
  have a: "saveJournalToLocalStorage t j s
             = consoleError ''Failed to save journal to localStorage:'' s"
    using p by (simp add: saveJournalToLocalStorage_def)
  have b: "localJournals (saveJournalToLocalStorage t j s) = Unparseable"
    using assms by (simp add: a)
  have c: "journalsContainer (displayCombinedJournals s)
           = journalsContainer (displayCombinedJournals (s\<lparr>localJournals := Stored []\<rparr>))"
    using p by (simp add: displayCombinedJournals_container combinedJournals_def storedJournals_def
                  parseLocalJournals_def renderCard_cong [of s "s\<lparr>localJournals := Stored []\<rparr>"])
  have d: "journalsContainer s \<noteq> None \<longrightarrow>
            console (displayCombinedJournals s)
              = console s @ [(LogError, ''Error parsing localStorage journals:'')]"
    using assms by (simp add: displayCombinedJournals_console)
  let ?failed = "displayCombinedJournals
                   (showMessage ''Error loading your journals'' MsgError
                      (consoleError ''Error loading local journals:''
                         (consoleError ''Error loading user journals from Firestore:'' s)))"
  have l: "loadUserJournals_settle (QueryFailed m) s = ?failed"
    using p by (simp add: loadUserJournals_settle_def Let_def)
  have e: "userJournals (loadUserJournals_settle (QueryFailed m) s) = userJournals s"
    by (simp add: l)
  have f: "localJournals (loadUserJournals_settle (QueryFailed m) s) = Unparseable"
    using assms by (simp add: l)
  have g: "messages (loadUserJournals_settle (QueryFailed m) s)
           = messages s @ [(MsgError, ''Error loading your journals'')]"
    by (simp add: l)
  have h: "console (loadUserJournals_settle (QueryFailed m) s)
           = console s @ [(LogError, ''Error loading user journals from Firestore:''),
                          (LogError, ''Error loading local journals:'')]
               @ (if journalsContainer s = None then []
                  else [(LogError, ''Error parsing localStorage journals:'')])"
    using assms by (simp add: l displayCombinedJournals_console)
  from a b c d e f g h show ?thesis by blast
qed

theorem unparseable_store_handling_witness:
  "localJournals corruptState = Unparseable
   \<and> journalsContainer corruptState \<noteq> None
   \<and> localJournals (saveJournalToLocalStorage 20 bobLocal corruptState) = Unparseable
   \<and> console (displayCombinedJournals corruptState)
       = [(LogError, ''Error parsing localStorage journals:'')]
   \<and> userJournals (loadUserJournals_settle (QueryFailed ''unavailable'') corruptState)
       = [aliceJournal]
   \<and> messages (loadUserJournals_settle (QueryFailed ''unavailable'') corruptState)
       = [(MsgError, ''Error loading your journals'')]"
  using unparseable_store_handling [of corruptState 20 bobLocal "''unavailable''"]
  by (simp add: corruptState_def aliceState_def)

text \<open>
  C9 as stated fails: saving to an unparseable store does not give the store
  that saving to an empty store gives, and the fallback read of
  \<open>loadUserJournals\<close> keeps Alice's list where an empty store would give
  the empty list.
\<close>

theorem unparseable_store_not_treated_as_empty:
  "localJournals (saveJournalToLocalStorage 20 bobLocal corruptState) = Unparseable
   \<and> localJournals (saveJournalToLocalStorage 20 bobLocal (corruptState\<lparr>localJournals := Stored []\<rparr>))
       = Stored [bobLocal]
   \<and> userJournals (loadUserJournals_settle (QueryFailed ''unavailable'') corruptState)
       = [aliceJournal]
   \<and> userJournals (loadUserJournals_settle (QueryFailed ''unavailable'')
                     (corruptState\<lparr>localJournals := Stored []\<rparr>)) = []"
  by (simp add: saveJournalToLocalStorage_def loadUserJournals_settle_def parseLocalJournals_def
        corruptState_def aliceState_def Let_def)

section \<open>Downgrade of a remote journal\<close>

lemma removeAtId_Cons:
  "removeAtId i (x # xs) = (if jid x = i then xs else x # removeAtId i xs)"
  by (simp add: removeAtId_def splice1_def split: option.splits)

lemma count_removeAtId:
  "count_list (map jid (removeAtId i js)) i = count_list (map jid js) i - 1"
proof (induction js)
  case Nil
  show ?case by (simp add: removeAtId_def)
next
  case (Cons x xs)
  show ?case
  proof (cases "jid x = i")
    case True
    then show ?thesis by (simp add: removeAtId_Cons)
  next
    case False
    with Cons.IH show ?thesis by (simp add: removeAtId_Cons)
  qed
qed

lemma count_upsert:
  "jid j' = jid j \<Longrightarrow>
   count_list (map jid (case findIndex (\<lambda>x. jid x = jid j) js of
                          Some i \<Rightarrow> js[i := j']
                        | None \<Rightarrow> js @ [j])) (jid j)
     = max 1 (count_list (map jid js) (jid j))"
proof (induction js)
  case Nil
  show ?case by simp
next
  case (Cons x xs)
  show ?case
  proof (cases "jid x = jid j")
    case True
    with Cons.prems show ?thesis by simp
  next
    case False
    with Cons.IH [OF Cons.prems] show ?thesis
      by (cases "findIndex (\<lambda>x. jid x = jid j) xs") simp_all
  qed
qed

lemma saveJournalToLocalStorage_count:
  assumes "localJournals s \<noteq> Unparseable"
  shows "\<exists>js'. localJournals (saveJournalToLocalStorage t j s) = Stored js'
           \<and> count_list (map jid js') (jid j) = max 1 (count_list (map jid (storedJournals s)) (jid j))"
proof -
  from assms obtain js where p: "parseLocalJournals (localJournals s) = Inr js"
    by (cases "localJournals s") (simp_all add: parseLocalJournals_def)
  have "jid (j\<lparr>updatedAt := Some t\<rparr>) = jid j" by simp
  from count_upsert [OF this, of js] p show ?thesis
    by (auto simp: saveJournalToLocalStorage_def storedJournals_def split: option.splits)
qed

text \<open>
  C2, as the code has it. Let the remote update of a journal fail or time
  out, with a fallback blob that parses, a container on the page, an
  identifier that occurs at most once in \<open>allJournals\<close> and at most once in
  the fallback store and is not the identifier of a sample. Then, when the
  handler returns, the identifier occurs in no journal of \<open>allJournals\<close>,
  in one journal of the fallback store and on one card. The merge itself
  removes nothing: the cards are those of \<open>allJournals\<close>, then those of the
  fallback store, then the samples.
\<close>

theorem remote_update_failure_downgrade:
  assumes "currentUser s = Some uid"
    and "f_journalId frm \<noteq> []"
    and "\<not> startsWith (f_journalId frm) ''local-''"
    and "trim (f_title frm) \<noteq> []"
    and "trim (f_content frm) \<noteq> []"
    and "onUpdate e \<noteq> UpdateOk"
    and "localJournals s \<noteq> Unparseable"
    and "journalsContainer s \<noteq> None"
    and "count_list (map jid (allJournals s)) (f_journalId frm) \<le> 1"
    and "count_list (map jid (storedJournals s)) (f_journalId frm) \<le> 1"
    and "f_journalId frm \<notin> jid ` set (samples s)"
  shows "count_list (map jid (allJournals (handleJournalSubmit e frm s))) (f_journalId frm) = 0
       \<and> count_list (map jid (storedJournals (handleJournalSubmit e frm s))) (f_journalId frm) = 1
       \<and> count_list (displayedIds (handleJournalSubmit e frm s)) (f_journalId frm) = 1
       \<and> displayedIds (displayCombinedJournals s)
           = map jid (allJournals s) @ map jid (storedJournals s) @ map jid (samples s)"
proof -
  let ?i = "f_journalId frm"
  let ?t = "trim (f_title frm)" and ?c = "trim (f_content frm)"
    and ?ts = "parseTags (trim (f_tags frm))"
  let ?nj = "newJournal ?i uid ?t ?c ?ts (now e)"
  let ?s' = "handleJournalSubmit e frm s"
  let ?s3 = "saveJournalToLocalStorage (now e) ?nj
               (consoleWarn ''Firestore update failed, saving to localStorage:''
                  (remoteCall (UpdateJournal ?i ?t ?c ?ts) s))"
  let ?s4 = "?s3\<lparr>userJournals := updateAtId ?i (patchJournal ?t ?c ?ts (now e)) (userJournals ?s3),
                   allJournals := removeAtId ?i (allJournals ?s3)\<rparr>"
  have h: "?s' = loadUserJournals_issue
                   (showMessage ''Journal updated locally! Will sync when online.'' MsgSuccess
                      (displayCombinedJournals ?s4))"
    using assms(1-6) by (simp add: handleJournalSubmit_def submitRemoteUpdate_def Let_def)
  have all: "allJournals ?s' = removeAtId ?i (allJournals s)"
    by (simp add: h)
  have loc: "localJournals ?s' = localJournals (saveJournalToLocalStorage (now e) ?nj s)"
    by (simp add: h saveJournalToLocalStorage_localJournals_cong
          [of "consoleWarn m (remoteCall c' s)" s for m c'])
  have a: "count_list (map jid (allJournals ?s')) ?i = 0"
    using assms(9) by (simp add: all count_removeAtId)
  have "jid ?nj = ?i" by (simp add: newJournal_def)
  with saveJournalToLocalStorage_count [OF assms(7), of "now e" ?nj] assms(10)
  obtain js' where js': "localJournals (saveJournalToLocalStorage (now e) ?nj s) = Stored js'"
      "count_list (map jid js') ?i = 1"
    by (auto simp: max_def split: if_splits)
  have st: "storedJournals ?s' = js'"
    by (simp add: storedJournals_def loc js'(1) parseLocalJournals_def)
  have b: "count_list (map jid (storedJournals ?s')) ?i = 1"
    by (simp add: st js'(2))
  have sam: "count_list (map jid (samples s)) ?i = 0"
    using assms(11) by (simp add: count_list_0_iff)
  have cont: "journalsContainer ?s4 \<noteq> None"
    using assms(8) by simp
  have c4: "combinedJournals ?s4 = removeAtId ?i (allJournals s) @ js' @ samples s"
    using js'(1) loc
    by (simp add: combinedJournals_def storedJournals_def parseLocalJournals_def samples_def
          saveJournalToLocalStorage_localJournals_cong
            [of "consoleWarn m (remoteCall c' s)" s for m c'])
  have "displayedIds ?s' = map jid (combinedJournals ?s4)"
    using cont by (simp add: h displayedIds_displayCombinedJournals)
  also have "\<dots> = map jid (removeAtId ?i (allJournals s) @ js' @ samples s)"
    by (simp only: c4)
  finally have c: "count_list (displayedIds ?s') ?i = 1"
    using assms(9) js'(2) sam by (simp add: count_removeAtId)
  have d: "displayedIds (displayCombinedJournals s)
           = map jid (allJournals s) @ map jid (storedJournals s) @ map jid (samples s)"
    using assms(8) by (simp add: displayedIds_displayCombinedJournals combinedJournals_def)
  from a b c d show ?thesis by blast
qed

theorem remote_update_failure_downgrade_witness:
  "currentUser aliceState = Some ''alice''
   \<and> f_journalId (exampleForm ''r1'') \<noteq> []
   \<and> \<not> startsWith (f_journalId (exampleForm ''r1'')) ''local-''
   \<and> trim (f_title (exampleForm ''r1'')) \<noteq> [] \<and> trim (f_content (exampleForm ''r1'')) \<noteq> []
   \<and> onUpdate exampleEnv \<noteq> UpdateOk
   \<and> localJournals aliceState \<noteq> Unparseable
   \<and> journalsContainer aliceState \<noteq> None
   \<and> count_list (map jid (allJournals aliceState)) (f_journalId (exampleForm ''r1'')) \<le> 1
   \<and> count_list (map jid (storedJournals aliceState)) (f_journalId (exampleForm ''r1'')) \<le> 1
   \<and> f_journalId (exampleForm ''r1'') \<notin> jid ` set (samples aliceState)
   \<and> count_list (map jid (allJournals (handleJournalSubmit exampleEnv (exampleForm ''r1'') aliceState)))
         ''r1'' = 0
   \<and> count_list (map jid (storedJournals (handleJournalSubmit exampleEnv (exampleForm ''r1'') aliceState)))
         ''r1'' = 1
   \<and> count_list (displayedIds (handleJournalSubmit exampleEnv (exampleForm ''r1'') aliceState))
         ''r1'' = 1"
  using remote_update_failure_downgrade [of aliceState "''alice''" "exampleForm ''r1''" exampleEnv]
  by (simp add: example_defs trim_def isSpace_def startsWith_def storedJournals_def
        parseLocalJournals_def samples_def SAMPLE_JOURNALS_def sampleJournal_def)

text \<open>
  C2 as stated fails: once \<open>allJournals\<close> is fetched again after the
  downgrade, the remote store still holds the journal and it is drawn twice;
  and with an unparseable fallback blob the downgraded journal is drawn
  nowhere.
\<close>

theorem reload_after_downgrade_shows_journal_twice:
  "displayedIds (handleJournalSubmit exampleEnv (exampleForm ''r1'') aliceState)
     = [''r1'', ''sample-1'', ''sample-2'', ''sample-3'']
   \<and> displayedIds (loadAllJournals (Snapshot [aliceJournal])
                     (handleJournalSubmit exampleEnv (exampleForm ''r1'') aliceState))
     = [''r1'', ''r1'', ''sample-1'', ''sample-2'', ''sample-3'']
   \<and> displayedIds (handleJournalSubmit exampleEnv (exampleForm ''r1'') corruptState)
     = [''sample-1'', ''sample-2'', ''sample-3'']"
proof -
  let ?s' = "handleJournalSubmit exampleEnv (exampleForm ''r1'') aliceState"
  have f: "trim '' Mine '' = ''Mine''" "trim ''Now'' = ''Now''"
          "parseTags (trim ''a, b'') = [''a'', ''b'']"
    by (simp_all add: trim_def isSpace_def parseTags_def)
  have u0: "currentUser aliceState = Some ''alice''"
    and c: "journalsContainer aliceState \<noteq> None"
    and l0: "localJournals aliceState = Absent"
    and a0: "allJournals aliceState = [aliceJournal]"
    by (simp_all add: aliceState_def)
  have h: "?s' = loadUserJournals_issue
             (submitRemoteUpdate exampleEnv ''alice'' ''r1'' ''Mine'' ''Now'' [''a'', ''b''] aliceState)"
    by (simp add: handleJournalSubmit_def Let_def u0 exampleForm_def f startsWith_def)
  have u: "currentUser ?s' = Some ''alice''"
    unfolding h by (simp add: u0)
  have l: "localJournals ?s' = Stored [newJournal ''r1'' ''alice'' ''Mine'' ''Now'' [''a'', ''b''] 20]"
    unfolding h
    by (simp add: exampleEnv_def saveJournalToLocalStorage_def parseLocalJournals_def l0)
  have a: "allJournals ?s' = []"
    unfolding h
    by (simp add: submitRemoteUpdate_def exampleEnv_def Let_def removeAtId_Cons a0
          aliceJournal_def newJournal_def)
  have n: "journalsContainer ?s' \<noteq> None"
    unfolding h using c by (simp add: submitRemoteUpdate_def exampleEnv_def Let_def)
  have s: "samples ?s' = samples aliceState"
    unfolding h by (simp add: submitRemoteUpdate_def exampleEnv_def Let_def)
  have "displayedIds ?s' = displayedIds (displayCombinedJournals ?s')"
    unfolding h
    by (simp add: submitRemoteUpdate_def exampleEnv_def Let_def
          displayedIds_displayCombinedJournals)
  then have d: "displayedIds ?s' = [''r1'', ''sample-1'', ''sample-2'', ''sample-3'']"
    using n a l
    by (simp add: displayedIds_displayCombinedJournals combinedJournals_def storedJournals_def
          parseLocalJournals_def sample_card_ids newJournal_def)
  have "displayedIds (loadAllJournals (Snapshot [aliceJournal]) ?s')
          = [''r1'', ''r1'', ''sample-1'', ''sample-2'', ''sample-3'']"
    using u n l
    by (simp add: loadAllJournals_def loadAllJournals_settle_def Let_def
          displayedIds_displayCombinedJournals combinedJournals_def storedJournals_def parseLocalJournals_def
          sample_card_ids aliceJournal_def newJournal_def)
  moreover have "displayedIds (handleJournalSubmit exampleEnv (exampleForm ''r1'') corruptState)
          = [''sample-1'', ''sample-2'', ''sample-3'']"
  proof -
    let ?c' = "handleJournalSubmit exampleEnv (exampleForm ''r1'') corruptState"
    have cu: "currentUser corruptState = Some ''alice''"
      and cc: "journalsContainer corruptState \<noteq> None"
      and cl: "localJournals corruptState = Unparseable"
      and ca: "allJournals corruptState = [aliceJournal]"
      by (simp_all add: corruptState_def aliceState_def)
    have ch: "?c' = loadUserJournals_issue
               (submitRemoteUpdate exampleEnv ''alice'' ''r1'' ''Mine'' ''Now'' [''a'', ''b'']
                  corruptState)"
      by (simp add: handleJournalSubmit_def Let_def cu exampleForm_def f startsWith_def)
    have "localJournals ?c' = Unparseable"
      unfolding ch
      by (simp add: exampleEnv_def saveJournalToLocalStorage_def parseLocalJournals_def cl)
    moreover have "allJournals ?c' = []"
      unfolding ch
      by (simp add: submitRemoteUpdate_def exampleEnv_def Let_def removeAtId_Cons ca
            aliceJournal_def newJournal_def)
    moreover have "journalsContainer ?c' \<noteq> None"
      unfolding ch using cc by (simp add: submitRemoteUpdate_def exampleEnv_def Let_def)
    moreover have "displayedIds ?c' = displayedIds (displayCombinedJournals ?c')"
      unfolding ch
      by (simp add: submitRemoteUpdate_def exampleEnv_def Let_def
            displayedIds_displayCombinedJournals)
    ultimately show ?thesis
      by (simp add: displayedIds_displayCombinedJournals combinedJournals_def storedJournals_def
            parseLocalJournals_def sample_card_ids)
  qed
  ultimately show ?thesis using d by simp
qed

end
